theory Spec2Isabelle
  imports Main
begin

section \<open>JavaScript values\<close>

text \<open>
  The client moves parsed JSON around without ever computing on it: it reads properties,
  tests truthiness and coerces to a string. A value is therefore a JSON tree plus
  \<open>undefined\<close> (what a missing property reads as). A number is represented by its
  rendering, the text \<open>String(n)\<close> returns: the code does no arithmetic on the numbers it
  receives, and a number is falsy exactly when it renders as \<open>0\<close> (both zeros do) or
  \<open>NaN\<close>. An object is the list of its own properties in insertion order.
\<close>

datatype jsval =
    JUndefined
  | JNull
  | JBool bool
  | JNum string
  | JStr string
  | JArr "jsval list"
  | JObj "(string \<times> jsval) list"

text \<open>Every value thrown in this code base is an \<open>Error\<close> object: a name and a message.\<close>

datatype js_error = JsError (err_name: string) (err_message: string)

fun truthy :: "jsval \<Rightarrow> bool" where
  "truthy JUndefined = False"
| "truthy JNull = False"
| "truthy (JBool b) = b"
| "truthy (JNum n) = (n \<noteq> ''0'' \<and> n \<noteq> ''NaN'')"
| "truthy (JStr s) = (s \<noteq> [])"
| "truthy (JArr xs) = True"
| "truthy (JObj kvs) = True"

fun join_comma :: "string list \<Rightarrow> string" where
  "join_comma [] = []"
| "join_comma [x] = x"
| "join_comma (x # y # ys) = x @ '','' @ join_comma (y # ys)"

text \<open>
  \<open>ToString\<close> is the coercion behind \<open>String(v)\<close>, template literals, \<open>new Error(v)\<close>,
  \<open>URLSearchParams.append\<close> and \<open>localStorage.setItem(k, v)\<close>. An array joins its
  elements with commas, and \<open>null\<close> and \<open>undefined\<close> elements render as the empty
  string. An object renders through its \<open>toString\<close>: the inherited one gives
  \<open>[object Object]\<close>, but an own property of that name, which in parsed JSON is never a
  function, hides it, the inherited \<open>valueOf\<close> gives no primitive either, and the
  coercion throws a TypeError (the wording is V8's).
\<close>

fun ToString :: "jsval \<Rightarrow> js_error + string"
  and ToStrings :: "jsval list \<Rightarrow> js_error + string list" where
  "ToString JUndefined = Inr ''undefined''"
| "ToString JNull = Inr ''null''"
| "ToString (JBool b) = Inr (if b then ''true'' else ''false'')"
| "ToString (JNum n) = Inr n"
| "ToString (JStr s) = Inr s"
| "ToString (JArr xs) =
     (case ToStrings xs of Inl e \<Rightarrow> Inl e | Inr ts \<Rightarrow> Inr (join_comma ts))"
| "ToString (JObj kvs) =
     (case map_of kvs ''toString'' of
        None \<Rightarrow> Inr ''[object Object]''
      | Some f \<Rightarrow> Inl (JsError ''TypeError'' ''Cannot convert object to primitive value''))"
| "ToStrings [] = Inr []"
| "ToStrings (v # vs) =
     (case (case v of JUndefined \<Rightarrow> Inr [] | JNull \<Rightarrow> Inr [] | _ \<Rightarrow> ToString v) of
        Inl e \<Rightarrow> Inl e
      | Inr t \<Rightarrow> (case ToStrings vs of Inl e \<Rightarrow> Inl e | Inr ts \<Rightarrow> Inr (t # ts)))"

text \<open>
  The property read \<open>v.k\<close>, for the names this code reads (\<open>message\<close>, \<open>healthy\<close>,
  \<open>sessionId\<close>), none of which a prototype supplies: on \<open>null\<close> and \<open>undefined\<close> it
  throws a TypeError (the wording is V8's), on an object it finds the own property or
  \<open>undefined\<close>, on any other value it is \<open>undefined\<close>.
\<close>

fun get_prop :: "jsval \<Rightarrow> string \<Rightarrow> js_error + jsval" where
  "get_prop JUndefined k =
     Inl (JsError ''TypeError'' (''Cannot read properties of undefined (reading '' @ [CHR 0x27] @ k @ [CHR 0x27] @ '')''))"
| "get_prop JNull k =
     Inl (JsError ''TypeError'' (''Cannot read properties of null (reading '' @ [CHR 0x27] @ k @ [CHR 0x27] @ '')''))"
| "get_prop (JObj kvs) k = Inr (case map_of kvs k of None \<Rightarrow> JUndefined | Some v \<Rightarrow> v)"
| "get_prop v k = Inr JUndefined"

text \<open>
  What \<open>throw new Error(m)\<close> throws: the \<open>Error\<close> whose message is \<open>m\<close> as a string,
  or the TypeError of that coercion.
\<close>

definition throw_new_Error :: "jsval \<Rightarrow> js_error" where
  "throw_new_Error m = (case ToString m of Inl e \<Rightarrow> e | Inr t \<Rightarrow> JsError ''Error'' t)"

fun show_nat :: "nat \<Rightarrow> string" where
  "show_nat n =
     (if n < 10 then [''0123456789'' ! n]
      else show_nat (n div 10) @ [''0123456789'' ! (n mod 10)])"

declare show_nat.simps [simp del]

text \<open>
  Object spread \<open>{...v}\<close> copies the own enumerable properties of \<open>v\<close>: those of an
  object, the indices of an array or of a string, nothing for the other values. A
  property written twice keeps its first position and its last value. (JavaScript lists
  integer-like keys before the others; the list here keeps the order of writing, which no
  statement below depends on.)
\<close>

fun obj_put :: "string \<Rightarrow> jsval \<Rightarrow> (string \<times> jsval) list \<Rightarrow> (string \<times> jsval) list" where
  "obj_put k v [] = [(k, v)]"
| "obj_put k v (p # ps) = (if fst p = k then (k, v) # ps else p # obj_put k v ps)"

fun own_props :: "jsval \<Rightarrow> (string \<times> jsval) list" where
  "own_props (JObj kvs) = kvs"
| "own_props (JArr xs) = zip (map show_nat [0 ..< length xs]) xs"
| "own_props (JStr s) = zip (map show_nat [0 ..< length s]) (map (\<lambda>c. JStr [c]) s)"
| "own_props v = []"

definition spread :: "(string \<times> jsval) list \<Rightarrow> jsval \<Rightarrow> (string \<times> jsval) list" where
  "spread kvs v = fold (\<lambda>(k, x) acc. obj_put k x acc) (own_props v) kvs"

section \<open>The platform: network, JSON, clock, storage\<close>

record request =
  url :: string
  http_method :: string
  headers :: "(string \<times> string) list"
  body :: "string option"

text \<open>
  A response is what the client reads of it: the status and the outcome of
  \<open>response.json()\<close>, which throws when the body is not JSON.
\<close>

record response =
  status :: nat
  json :: "js_error + jsval"

definition ok :: "response \<Rightarrow> bool" where
  "ok r = (200 \<le> status r \<and> status r \<le> 299)"

datatype fetch_result = Rejected js_error | Responded response

text \<open>
  Everything the code calls and does not define is a field of the platform: the network
  (\<open>fetch\<close> rejects on a transport failure and resolves with a response otherwise), the
  JSON built-ins (\<open>JSON.stringify\<close> throws on a cyclic value and returns \<open>undefined\<close>,
  here \<open>None\<close>, on \<open>undefined\<close>; \<open>JSON.parse\<close> throws a SyntaxError), the URL encoding of
  \<open>URLSearchParams\<close>, the clock and the random source (indexed by the number of readings
  taken so far), the window, and the functions the shell imports from modules that are
  not part of this excerpt: \<open>createNeuralVisualization\<close> of js/visualizations/neural.js,
  \<open>startSession\<close> and \<open>trackEvent\<close> of js/analytics/tracker.js. Such a function either
  returns (\<open>None\<close>) or throws. \<open>Math_random36\<close> is
  \<open>Math.random().toString(36).substr(2, 9)\<close>, and \<open>Date_now\<close> the rendering of
  \<open>Date.now()\<close>.
\<close>

record platform =
  fetch :: "request \<Rightarrow> fetch_result"
  JSON_stringify :: "jsval \<Rightarrow> js_error + string option"
  JSON_parse :: "string \<Rightarrow> js_error + jsval"
  urlencode :: "string \<Rightarrow> string"
  Date_now :: "nat \<Rightarrow> string"
  Date_toISOString :: "nat \<Rightarrow> string"
  Math_random36 :: "nat \<Rightarrow> string"
  innerWidth :: string
  innerHeight :: string
  userAgent :: string
  createNeuralVisualization :: "js_error option"
  tracker_startSession :: "js_error option"
  tracker_trackEvent :: "string \<Rightarrow> jsval \<Rightarrow> js_error option"

text \<open>
  A node appended to the document body. The navigation bar and the hero section are fixed
  markup; the error overlay is a \<open>div\<close> of class \<open>error-overlay\<close> and carries the text
  assigned to its \<open>innerHTML\<close>.
\<close>

datatype ui_node =
    NavBar
  | HeroSection
  | ErrorOverlay string

datatype effect =
    Fetch request
  | GetItem string
  | SetItem string string
  | ConsoleLog string
  | ConsoleWarn string js_error
  | ConsoleError string js_error
  | AddEventListener string string
  | DispatchEvent string jsval
  | CallNeuralVisualization string jsval
  | CallStartSession
  | CallTrackEvent string jsval

text \<open>
  The state of one browser tab: local storage, the nodes appended to the document body,
  the fields of the \<open>CognitiveApp\<close> instance, the number of clock readings taken, and the
  trace of every call that leaves the program, in the order made. Local storage is taken
  to accept every write (no quota).
\<close>

record client =
  localStorage :: "string \<rightharpoonup> string"
  document_body :: "ui_node list"
  currentSession :: jsval
  userProfile :: jsval
  isInitialized :: bool
  clock :: nat
  trace :: "effect list"

definition emit :: "effect \<Rightarrow> client \<Rightarrow> client" where
  "emit ev s = s\<lparr>trace := trace s @ [ev]\<rparr>"

definition getItem :: "string \<Rightarrow> client \<Rightarrow> string option \<times> client" where
  "getItem k s = (localStorage s k, emit (GetItem k) s)"

definition setItem :: "string \<Rightarrow> string \<Rightarrow> client \<Rightarrow> client" where
  "setItem k v s = emit (SetItem k v) (s\<lparr>localStorage := (localStorage s)(k \<mapsto> v)\<rparr>)"

definition appendChild :: "ui_node \<Rightarrow> client \<Rightarrow> client" where
  "appendChild n s = s\<lparr>document_body := document_body s @ [n]\<rparr>"

section \<open>The API client (js/api/cognitive.js)\<close>

definition api_headers :: "(string \<times> string) list" where
  "api_headers = [(''Content-Type'', ''application/json''), (''Accept'', ''application/json'')]"

definition health_request :: "string \<Rightarrow> request" where
  "health_request baseURL =
     \<lparr>url = baseURL @ ''/health'', http_method = ''GET'', headers = [], body = None\<rparr>"

definition checkHealth :: "platform \<Rightarrow> string \<Rightarrow> client \<Rightarrow> (js_error + jsval) \<times> client" where
  "checkHealth P baseURL s =
     (let s1 = emit (Fetch (health_request baseURL)) s;
          attempt =
            (case fetch P (health_request baseURL) of
               Rejected e \<Rightarrow> Inl e
             | Responded r \<Rightarrow>
                 if \<not> ok r then Inl (JsError ''Error'' ''Health check failed'')
                 else json r)
      in case attempt of
           Inr v \<Rightarrow> (Inr v, s1)
         | Inl error \<Rightarrow>
             (Inr (JObj [(''healthy'', JBool False), (''error'', JStr (err_message error))]),
              emit (ConsoleError ''Health check error:'' error) s1))"

text \<open>
  The block every other operation repeats inside its \<open>try\<close>: send the request; on a
  response that is not ok read its JSON and throw an \<open>Error\<close> whose message is the body's
  \<open>message\<close> or, when that is falsy, the operation's own text; otherwise return the
  parsed body.
\<close>

definition fetch_json :: "platform \<Rightarrow> request \<Rightarrow> string \<Rightarrow> client \<Rightarrow> (js_error + jsval) \<times> client" where
  "fetch_json P req fallback s =
     (case fetch P req of
        Rejected e \<Rightarrow> Inl e
      | Responded r \<Rightarrow>
          if \<not> ok r then
            (case json r of
               Inl e \<Rightarrow> Inl e
             | Inr error \<Rightarrow>
                 (case get_prop error ''message'' of
                    Inl e \<Rightarrow> Inl e
                  | Inr m \<Rightarrow> Inl (throw_new_Error (if truthy m then m else JStr fallback))))
          else json r,
      emit (Fetch req) s)"

text \<open>\<open>catch (error) { console.error(label, error); throw error; }\<close>\<close>

definition log_and_rethrow :: "string \<Rightarrow> (js_error + jsval) \<times> client \<Rightarrow> (js_error + jsval) \<times> client" where
  "log_and_rethrow label rs =
     (case rs of
        (Inl error, s) \<Rightarrow> (Inl error, emit (ConsoleError label error) s)
      | (Inr v, s) \<Rightarrow> (Inr v, s))"

text \<open>A POST of \<open>JSON.stringify(payload)\<close>; the serialisation runs inside the \<open>try\<close> too.\<close>

definition post_json :: "platform \<Rightarrow> string \<Rightarrow> jsval \<Rightarrow> string \<Rightarrow> client \<Rightarrow> (js_error + jsval) \<times> client" where
  "post_json P u payload fallback s =
     (case JSON_stringify P payload of
        Inl e \<Rightarrow> (Inl e, s)
      | Inr b \<Rightarrow>
          fetch_json P \<lparr>url = u, http_method = ''POST'', headers = api_headers, body = b\<rparr> fallback s)"

definition get_json :: "platform \<Rightarrow> string \<Rightarrow> string \<Rightarrow> client \<Rightarrow> (js_error + jsval) \<times> client" where
  "get_json P u fallback s =
     fetch_json P \<lparr>url = u, http_method = ''GET'', headers = api_headers, body = None\<rparr> fallback s"

definition createSession :: "platform \<Rightarrow> string \<Rightarrow> jsval \<Rightarrow> client \<Rightarrow> (js_error + jsval) \<times> client" where
  "createSession P baseURL sessionData s =
     log_and_rethrow ''Session creation error:''
       (post_json P (baseURL @ ''/cognitive/session/start'') sessionData
          ''Failed to create session'' s)"

definition trackEvent :: "platform \<Rightarrow> string \<Rightarrow> jsval \<Rightarrow> jsval \<Rightarrow> client \<Rightarrow> (js_error + jsval) \<times> client" where
  "trackEvent P baseURL sessionId eventData s =
     (case post_json P (baseURL @ ''/cognitive/event'')
             (JObj (spread [(''sessionId'', sessionId)] eventData))
             ''Failed to track event'' s of
        (Inl error, s1) \<Rightarrow> (Inr JNull, emit (ConsoleError ''Event tracking error:'' error) s1)
      | (Inr v, s1) \<Rightarrow> (Inr v, s1))"

definition completeSession :: "platform \<Rightarrow> string \<Rightarrow> jsval \<Rightarrow> jsval \<Rightarrow> client \<Rightarrow> (js_error + jsval) \<times> client" where
  "completeSession P baseURL sessionId finalState s =
     log_and_rethrow ''Session completion error:''
       (post_json P (baseURL @ ''/cognitive/session/complete'')
          (JObj [(''sessionId'', sessionId), (''finalState'', finalState)])
          ''Failed to complete session'' s)"

text \<open>
  The three operations that build their URL from an argument coerce it to a string inside
  the \<open>try\<close>, before the request is made; a coercion that throws ends the attempt.
\<close>

definition getComparativeInsights :: "platform \<Rightarrow> string \<Rightarrow> jsval \<Rightarrow> jsval \<Rightarrow> client \<Rightarrow> (js_error + jsval) \<times> client" where
  "getComparativeInsights P baseURL userId archetype s =
     log_and_rethrow ''Comparative insights error:''
       (case ToString userId of
          Inl e \<Rightarrow> (Inl e, s)
        | Inr u \<Rightarrow>
            (case (if truthy archetype then
                     (case ToString archetype of
                        Inl e \<Rightarrow> Inl e
                      | Inr a \<Rightarrow> Inr (''archetype='' @ urlencode P a))
                   else Inr []) of
               Inl e \<Rightarrow> (Inl e, s)
             | Inr params \<Rightarrow>
                 get_json P (baseURL @ ''/cognitive/comparative/'' @ u @ ''?'' @ params)
                   ''Failed to get comparative insights'' s))"

definition getVisualization :: "platform \<Rightarrow> string \<Rightarrow> jsval \<Rightarrow> client \<Rightarrow> (js_error + jsval) \<times> client" where
  "getVisualization P baseURL sessionId s =
     log_and_rethrow ''Visualization error:''
       (case ToString sessionId of
          Inl e \<Rightarrow> (Inl e, s)
        | Inr i \<Rightarrow>
            get_json P (baseURL @ ''/cognitive/visualization/'' @ i)
              ''Failed to get visualization'' s)"

definition shareProfile :: "platform \<Rightarrow> string \<Rightarrow> jsval \<Rightarrow> jsval \<Rightarrow> client \<Rightarrow> (js_error + jsval) \<times> client" where
  "shareProfile P baseURL profileData privacyLevel s =
     log_and_rethrow ''Share profile error:''
       (post_json P (baseURL @ ''/cognitive/share'')
          (JObj [(''profileData'', profileData),
                 (''privacyLevel'', if privacyLevel = JUndefined then JStr ''public'' else privacyLevel)])
          ''Failed to share profile'' s)"

definition findCognitiveMatches :: "platform \<Rightarrow> string \<Rightarrow> jsval \<Rightarrow> jsval \<Rightarrow> client \<Rightarrow> (js_error + jsval) \<times> client" where
  "findCognitiveMatches P baseURL userId desiredInteraction s =
     log_and_rethrow ''Match finding error:''
       (post_json P (baseURL @ ''/cognitive/match'')
          (JObj [(''userId'', userId), (''desiredInteraction'', desiredInteraction)])
          ''Failed to find matches'' s)"

definition getRecommendation :: "platform \<Rightarrow> string \<Rightarrow> jsval \<Rightarrow> client \<Rightarrow> (js_error + jsval) \<times> client" where
  "getRecommendation P baseURL userId s =
     log_and_rethrow ''Recommendation error:''
       (case ToString userId of
          Inl e \<Rightarrow> (Inl e, s)
        | Inr u \<Rightarrow>
            get_json P (baseURL @ ''/cognitive/recommendation/'' @ u)
              ''Failed to get recommendation'' s)"

text \<open>
  The utility \<open>handleError\<close>, which no operation calls: on a response that is not ok it
  throws an \<open>Error\<close> whose message is the body's \<open>message\<close> or, when that is falsy or the
  body cannot be read, \<open>HTTP\<close> followed by the status.
\<close>

definition handleError :: "response \<Rightarrow> js_error + unit" where
  "handleError r =
     (if \<not> ok r then
        (let http = JStr (''HTTP '' @ show_nat (status r));
             errorMessage =
               (case json r of
                  Inl e \<Rightarrow> http
                | Inr error \<Rightarrow>
                    (case get_prop error ''message'' of
                       Inl e \<Rightarrow> http
                     | Inr m \<Rightarrow> if truthy m then m else http))
         in Inl (throw_new_Error errorMessage))
      else Inr ())"

section \<open>The application shell (js/app.js)\<close>

definition fresh_user_id :: "platform \<Rightarrow> client \<Rightarrow> string \<times> client" where
  "fresh_user_id P s =
     (let userId = ''user_'' @ Date_now P (clock s) @ ''_'' @ Math_random36 P (clock s)
      in (userId, setItem ''cognitive_user_id'' userId (s\<lparr>clock := Suc (clock s)\<rparr>)))"

definition getUserId :: "platform \<Rightarrow> client \<Rightarrow> string \<times> client" where
  "getUserId P s =
     (case getItem ''cognitive_user_id'' s of
        (None, s1) \<Rightarrow> fresh_user_id P s1
      | (Some userId, s1) \<Rightarrow> if userId = [] then fresh_user_id P s1 else (userId, s1))"

text \<open>The constructor's \<open>new CognitiveAPI()\<close> leaves the base URL at its default.\<close>

definition api_base :: string where
  "api_base = ''/api''"

definition startNewSession :: "platform \<Rightarrow> client \<Rightarrow> (js_error + jsval) \<times> client" where
  "startNewSession P s =
     (case getUserId P s of
        (userId, s1) \<Rightarrow>
          (let sessionData =
                 JObj [(''userId'', JStr userId),
                       (''puzzleType'', JStr ''ego_labyrinth''),
                       (''resolution'', JStr (innerWidth P @ ''x'' @ innerHeight P)),
                       (''userAgent'', JStr (userAgent P)),
                       (''timestamp'', JNum (Date_now P (clock s1)))]
           in case createSession P api_base sessionData (s1\<lparr>clock := Suc (clock s1)\<rparr>) of
                (Inl e, s2) \<Rightarrow> (Inl e, s2)
              | (Inr session, s2) \<Rightarrow>
                  (case get_prop session ''sessionId'' of
                     Inl e \<Rightarrow> (Inl e, s2)
                   | Inr sessionId \<Rightarrow>
                       (case ToString sessionId of
                          Inl e \<Rightarrow> (Inl e, s2)
                        | Inr stored \<Rightarrow>
                            (let s3 = setItem ''cognitive_session_id'' stored s2;
                                 data = JObj [(''sessionId'', sessionId),
                                              (''puzzleType'', JStr ''ego_labyrinth'')];
                                 s4 = emit (CallTrackEvent ''session_start'' data) s3
                             in case tracker_trackEvent P ''session_start'' data of
                                  Some e \<Rightarrow> (Inl e, s4)
                                | None \<Rightarrow> (Inr session, s4))))))"

definition profile_key :: "string \<Rightarrow> string" where
  "profile_key userId = ''cognitive_profile_'' @ userId"

definition default_profile :: "string \<Rightarrow> string \<Rightarrow> jsval" where
  "default_profile userId createdAt =
     JObj [(''userId'', JStr userId),
           (''archetype'', JNull),
           (''sessions'', JArr []),
           (''createdAt'', JStr createdAt),
           (''preferences'',
              JObj [(''theme'', JStr ''dark''),
                    (''difficulty'', JStr ''adaptive''),
                    (''hints'', JBool True),
                    (''animations'', JBool True)])]"

text \<open>
  The first half of \<open>loadUserProfile\<close>: a truthy stored blob that parses is the result;
  a blob that does not parse is warned about and dropped.
\<close>

definition parse_stored :: "platform \<Rightarrow> string option \<Rightarrow> client \<Rightarrow> jsval option \<times> client" where
  "parse_stored P storedProfile s =
     (case storedProfile of
        None \<Rightarrow> (None, s)
      | Some blob \<Rightarrow>
          if blob = [] then (None, s)
          else
            (case JSON_parse P blob of
               Inr v \<Rightarrow> (Some v, s)
             | Inl e \<Rightarrow> (None, emit (ConsoleWarn ''Failed to parse stored profile:'' e) s)))"

definition loadUserProfile :: "platform \<Rightarrow> client \<Rightarrow> (js_error + jsval) \<times> client" where
  "loadUserProfile P s =
     (case getUserId P s of
        (userId, s1) \<Rightarrow>
          (case getItem (profile_key userId) s1 of
             (storedProfile, s2) \<Rightarrow>
               (case parse_stored P storedProfile s2 of
                  (Some v, s3) \<Rightarrow> (Inr v, s3)
                | (None, s3) \<Rightarrow>
                    (let profile = default_profile userId (Date_toISOString P (clock s3));
                         s4 = s3\<lparr>clock := Suc (clock s3)\<rparr>
                     in case JSON_stringify P profile of
                          Inl e \<Rightarrow> (Inl e, s4)
                        | Inr b \<Rightarrow>
                            (Inr profile,
                             setItem (profile_key userId)
                               (case b of None \<Rightarrow> ''undefined'' | Some t \<Rightarrow> t) s4)))))"

text \<open>
  \<open>createNavigation\<close> appends the navigation bar and wires its two buttons and every
  element carrying \<open>data-navigate\<close>: the four links of each navigation bar in the
  document, which is taken to hold what this code appended.
\<close>

definition nav_links :: "ui_node list \<Rightarrow> string list" where
  "nav_links nodes =
     concat (map (\<lambda>n. if n = NavBar then [''puzzles'', ''profile'', ''compare'', ''about''] else [])
               nodes)"

definition createNavigation :: "client \<Rightarrow> client" where
  "createNavigation s =
     (let s1 = appendChild NavBar s
      in fold emit
           ([AddEventListener ''themeToggle'' ''click'', AddEventListener ''startPuzzle'' ''click'']
            @ map (\<lambda>page. AddEventListener page ''click'') (nav_links (document_body s1)))
           s1)"

text \<open>
  A call \<open>this.m()\<close> of a method that class \<open>CognitiveApp\<close> does not define throws a
  TypeError before anything runs (the wording is V8's). The class defines none of
  \<open>animateStats\<close>, \<open>createPuzzleSelector\<close> and \<open>createUserPanel\<close>.
\<close>

definition undefined_method :: "string \<Rightarrow> js_error + unit" where
  "undefined_method name = Inl (JsError ''TypeError'' (''this.'' @ name @ '' is not a function''))"

definition createHeroSection :: "client \<Rightarrow> (js_error + unit) \<times> client" where
  "createHeroSection s =
     (let s1 = appendChild HeroSection s
      in case undefined_method ''animateStats'' of
           Inl e \<Rightarrow> (Inl e, s1)
         | Inr u \<Rightarrow>
             (Inr (),
              fold emit [AddEventListener ''heroStart'' ''click'',
                         AddEventListener ''watchDemo'' ''click''] s1))"

definition initializeInteractiveElements :: "client \<Rightarrow> (js_error + unit) \<times> client" where
  "initializeInteractiveElements s =
     (case createHeroSection (createNavigation s) of
        (Inl e, s1) \<Rightarrow> (Inl e, s1)
      | (Inr u, s1) \<Rightarrow>
          (case undefined_method ''createPuzzleSelector'' of
             Inl e \<Rightarrow> (Inl e, s1)
           | Inr u1 \<Rightarrow>
               (case undefined_method ''createUserPanel'' of
                  Inl e \<Rightarrow> (Inl e, s1)
                | Inr u2 \<Rightarrow> (Inr (), s1))))"

definition neural_options :: jsval where
  "neural_options =
     JObj [(''nodes'', JNum ''50''),
           (''connections'', JNum ''100''),
           (''colors'', JArr [JStr ''#2A4B8C'', JStr ''#6B46C1'', JStr ''#0D9488'',
                              JStr ''#EA580C'', JStr ''#CA8A04'']),
           (''speed'', JNum ''0.5''),
           (''opacity'', JNum ''0.3'')]"

definition initializeVisualizations :: "platform \<Rightarrow> client \<Rightarrow> (js_error + unit) \<times> client" where
  "initializeVisualizations P s =
     (let s1 = emit (CallNeuralVisualization ''neuralBackground'' neural_options) s
      in case createNeuralVisualization P of
           Some e \<Rightarrow> (Inl e, s1)
         | None \<Rightarrow> initializeInteractiveElements s1)"

text \<open>
  The template \<open>showError\<close> assigns to the overlay's \<open>innerHTML\<close>, with the message put
  in as it is (white space between the tags and the pictograph of the icon are left out).
\<close>

definition error_html :: "string \<Rightarrow> string" where
  "error_html message =
     ''<div class=\"error-content\">''
     @ ''<div class=\"error-icon\"></div>''
     @ ''<h3>Cognitive Engine Error</h3>''
     @ ''<p>'' @ message @ ''</p>''
     @ ''<div class=\"error-actions\">''
     @ ''<button onclick=\"location.reload()\" class=\"btn-primary\">Retry</button>''
     @ ''<button onclick=\"this.closest('.error-overlay').remove()\" class=\"btn-secondary\">Continue Anyway</button>''
     @ ''</div></div>''"

definition showError :: "js_error \<Rightarrow> client \<Rightarrow> client" where
  "showError error s =
     appendChild
       (ErrorOverlay
          (error_html
             (if err_message error \<noteq> [] then err_message error
              else ''An unexpected error occurred'')))
       s"

text \<open>
  The five stanzas of the \<open>try\<close> block of \<open>init\<close>, one definition each, in the source's
  order. A stanza that throws leaves the state it had reached.
\<close>

definition health_stanza :: "platform \<Rightarrow> client \<Rightarrow> (js_error + unit) \<times> client" where
  "health_stanza P s =
     (case checkHealth P api_base s of
        (Inl e, s1) \<Rightarrow> (Inl e, s1)
      | (Inr health, s1) \<Rightarrow>
          (case get_prop health ''healthy'' of
             Inl e \<Rightarrow> (Inl e, s1)
           | Inr healthy \<Rightarrow>
               if \<not> truthy healthy then (Inl (JsError ''Error'' ''API server is not available''), s1)
               else (Inr (), s1)))"

definition session_stanza :: "platform \<Rightarrow> client \<Rightarrow> (js_error + unit) \<times> client" where
  "session_stanza P s =
     (case startNewSession P s of
        (Inl e, s1) \<Rightarrow> (Inl e, s1)
      | (Inr session, s1) \<Rightarrow> (Inr (), s1\<lparr>currentSession := session\<rparr>))"

definition profile_stanza :: "platform \<Rightarrow> client \<Rightarrow> (js_error + unit) \<times> client" where
  "profile_stanza P s =
     (case loadUserProfile P s of
        (Inl e, s1) \<Rightarrow> (Inl e, s1)
      | (Inr profile, s1) \<Rightarrow> (Inr (), s1\<lparr>userProfile := profile\<rparr>))"

definition tracking_stanza :: "platform \<Rightarrow> client \<Rightarrow> (js_error + unit) \<times> client" where
  "tracking_stanza P s =
     (let s1 = emit CallStartSession s
      in case tracker_startSession P of
           Some e \<Rightarrow> (Inl e, s1)
         | None \<Rightarrow> (Inr (), s1))"

definition announce_ready :: "client \<Rightarrow> client" where
  "announce_ready s =
     emit (DispatchEvent ''app:ready''
             (JObj [(''session'', currentSession s), (''profile'', userProfile s)]))
       (emit (ConsoleLog ''Cognitive Mirrors initialized successfully'')
          (s\<lparr>isInitialized := True\<rparr>))"

definition init_try :: "platform \<Rightarrow> client \<Rightarrow> (js_error + unit) \<times> client" where
  "init_try P s =
     (case health_stanza P (emit (ConsoleLog ''Initializing Cognitive Mirrors...'') s) of
        (Inl e, s1) \<Rightarrow> (Inl e, s1)
      | (Inr u1, s1) \<Rightarrow>
     (case session_stanza P s1 of
        (Inl e, s2) \<Rightarrow> (Inl e, s2)
      | (Inr u2, s2) \<Rightarrow>
     (case profile_stanza P s2 of
        (Inl e, s3) \<Rightarrow> (Inl e, s3)
      | (Inr u3, s3) \<Rightarrow>
     (case initializeVisualizations P s3 of
        (Inl e, s4) \<Rightarrow> (Inl e, s4)
      | (Inr u4, s4) \<Rightarrow>
     (case tracking_stanza P s4 of
        (Inl e, s5) \<Rightarrow> (Inl e, s5)
      | (Inr u5, s5) \<Rightarrow> (Inr (), announce_ready s5))))))"

text \<open>\<open>catch (error) { console.error(..., error); this.showError(error); return false; }\<close>\<close>

definition init_catch :: "js_error \<Rightarrow> client \<Rightarrow> client" where
  "init_catch error s = showError error (emit (ConsoleError ''Failed to initialize app:'' error) s)"

definition init :: "platform \<Rightarrow> client \<Rightarrow> bool \<times> client" where
  "init P s =
     (case init_try P s of
        (Inl error, s1) \<Rightarrow> (False, init_catch error s1)
      | (Inr u, s1) \<Rightarrow> (True, s1))"

section \<open>The server (backend/server.js)\<close>

text \<open>
  What the \<open>/api/health\<close> handler reads of the server: the environment name, the
  database driver's ready state, the clock, the uptime and the memory usage.
\<close>

record server =
  nodeEnv :: string
  readyState :: nat
  server_time :: string
  process_uptime :: string
  process_memoryUsage :: jsval

text \<open>
  \<open>res.status(200).json({...})\<close>, as the client receives it: every property is a
  string, a number or an object of numbers, so parsing the body gives the object back.
\<close>

definition health_handler :: "server \<Rightarrow> response" where
  "health_handler srv =
     \<lparr>status = 200,
      json = Inr (JObj [(''status'', JStr ''healthy''),
                        (''timestamp'', JStr (server_time srv)),
                        (''uptime'', JNum (process_uptime srv)),
                        (''memory'', process_memoryUsage srv),
                        (''environment'', JStr (nodeEnv srv)),
                        (''database'',
                           JStr (if readyState srv = 1 then ''connected'' else ''disconnected''))])\<rparr>"

text \<open>
  The two process-level handlers that \<open>initializeErrorHandling\<close> registers. A process is
  its log and its exit code, \<open>None\<close> while it runs. \<open>logError\<close> comes from the logger
  middleware, outside this excerpt: it is taken to record its argument and return.

  A promise rejects with any value: an \<open>Error\<close>, a value of the kind modelled above, or a
  value that has no conversion to a string at all (an object without a prototype, a
  symbol), given here by the error its conversion throws. In a template literal an
  \<open>Error\<close> renders as its name, a colon and its message (as the one of the two that is
  not empty when the other is).
\<close>

datatype reason = ReasonError js_error | ReasonValue jsval | ReasonUnprintable js_error

datatype log_entry =
    console_error string reason
  | logError js_error string

record process =
  proc_log :: "log_entry list"
  exit_code :: "nat option"

definition process_exit :: "nat \<Rightarrow> process \<Rightarrow> process" where
  "process_exit n p = p\<lparr>exit_code := Some n\<rparr>"

definition record_entry :: "log_entry \<Rightarrow> process \<Rightarrow> process" where
  "record_entry l p = p\<lparr>proc_log := proc_log p @ [l]\<rparr>"

definition reason_text :: "reason \<Rightarrow> js_error + string" where
  "reason_text r =
     (case r of
        ReasonError e \<Rightarrow>
          Inr (if err_message e = [] then err_name e
               else if err_name e = [] then err_message e
               else err_name e @ '': '' @ err_message e)
      | ReasonValue v \<Rightarrow> ToString v
      | ReasonUnprintable e \<Rightarrow> Inl e)"

text \<open>
  The listener for \<open>unhandledRejection\<close> prints to the console, then builds
  \<open>new Error(`Unhandled Rejection: ${reason}`)\<close> for \<open>logError\<close>; the template literal
  throws when the reason has no string conversion, and then \<open>logError\<close> is not reached.
\<close>

definition on_unhandledRejection :: "reason \<Rightarrow> process \<Rightarrow> (js_error + unit) \<times> process" where
  "on_unhandledRejection r p =
     (let p1 = record_entry (console_error ''Unhandled Rejection at:'' r) p
      in case reason_text r of
           Inl e \<Rightarrow> (Inl e, p1)
         | Inr t \<Rightarrow>
             (Inr (),
              record_entry (logError (JsError ''Error'' (''Unhandled Rejection: '' @ t)) ''promise'')
                p1))"

definition on_uncaughtException :: "js_error \<Rightarrow> process \<Rightarrow> process" where
  "on_uncaughtException error p =
     process_exit 1
       (record_entry (logError error ''uncaughtException'')
          (record_entry (console_error ''Uncaught Exception:'' (ReasonError error)) p))"

text \<open>
  A fault reaches a running process as one of Node's two events. With a listener
  registered the listener is all that happens; an exception that a listener throws is
  itself an uncaught exception; and an exited process handles nothing.
\<close>

datatype fault = UncaughtException js_error | UnhandledRejection reason

definition raise_fault :: "fault \<Rightarrow> process \<Rightarrow> process" where
  "raise_fault f p =
     (if exit_code p \<noteq> None then p
      else case f of
             UncaughtException error \<Rightarrow> on_uncaughtException error p
           | UnhandledRejection r \<Rightarrow>
               (case on_unhandledRejection r p of
                  (Inl e, p1) \<Rightarrow> on_uncaughtException e p1
                | (Inr u, p1) \<Rightarrow> p1))"

section \<open>A concrete platform\<close>

text \<open>
  The theorems below hold for every platform. To run the model on concrete inputs the
  platform is instantiated here: a JSON printer and parser for the fragment without
  escapes other than the quote and the backslash (a number is kept as it is written, so
  the parser is exact on numbers written the way JavaScript renders them), a clock, and a
  backend that answers the health check with a \<open>healthy\<close> flag, creates a session, and
  knows no other route.
\<close>

fun json_escape :: "string \<Rightarrow> string" where
  "json_escape [] = []"
| "json_escape (c # cs) =
     (if c = CHR ''\"'' \<or> c = CHR 0x5C then CHR 0x5C # c # json_escape cs
      else c # json_escape cs)"

definition json_quote :: "string \<Rightarrow> string" where
  "json_quote s = CHR ''\"'' # json_escape s @ [CHR ''\"'']"

fun json_text :: "jsval \<Rightarrow> string"
  and json_elements :: "jsval list \<Rightarrow> string list"
  and json_members :: "(string \<times> jsval) list \<Rightarrow> string list" where
  "json_text JUndefined = ''null''"
| "json_text JNull = ''null''"
| "json_text (JBool b) = (if b then ''true'' else ''false'')"
| "json_text (JNum n) = n"
| "json_text (JStr s) = json_quote s"
| "json_text (JArr xs) = ''['' @ join_comma (json_elements xs) @ '']''"
| "json_text (JObj kvs) = ''{'' @ join_comma (json_members kvs) @ ''}''"
| "json_elements [] = []"
| "json_elements (v # vs) = json_text v # json_elements vs"
| "json_members [] = []"
| "json_members ((k, v) # kvs) =
     (if v = JUndefined then json_members kvs
      else (json_quote k @ '':'' @ json_text v) # json_members kvs)"

definition demo_stringify :: "jsval \<Rightarrow> js_error + string option" where
  "demo_stringify v = Inr (if v = JUndefined then None else Some (json_text v))"

definition skip_ws :: "string \<Rightarrow> string" where
  "skip_ws s = dropWhile (\<lambda>c. c = CHR '' '' \<or> c = CHR 0x0A \<or> c = CHR 0x0D \<or> c = CHR 0x09) s"

fun scan_string :: "string \<Rightarrow> string \<Rightarrow> (string \<times> string) option" where
  "scan_string acc [] = None"
| "scan_string acc [c] = (if c = CHR ''\"'' then Some (rev acc, []) else None)"
| "scan_string acc (c # d # ds) =
     (if c = CHR ''\"'' then Some (rev acc, d # ds)
      else if c = CHR 0x5C then
        (if d = CHR ''\"'' \<or> d = CHR 0x5C then scan_string (d # acc) ds else None)
      else scan_string (c # acc) (d # ds))"

definition number_char :: "char \<Rightarrow> bool" where
  "number_char c = (c \<in> set ''-+.eE0123456789'')"

text \<open>
  A recursive-descent parser; the first argument bounds the nesting depth and the number
  of elements read, and \<open>demo_parse\<close> starts it above the length of the text.
\<close>

fun parse_value :: "nat \<Rightarrow> string \<Rightarrow> (jsval \<times> string) option"
  and parse_elements :: "nat \<Rightarrow> jsval list \<Rightarrow> string \<Rightarrow> (jsval \<times> string) option"
  and parse_members :: "nat \<Rightarrow> (string \<times> jsval) list \<Rightarrow> string \<Rightarrow> (jsval \<times> string) option" where
  "parse_value 0 s = None"
| "parse_value (Suc n) s =
     (case skip_ws s of
        [] \<Rightarrow> None
      | c # cs \<Rightarrow>
          if c = CHR ''\"'' then
            (case scan_string [] cs of None \<Rightarrow> None | Some (t, rest) \<Rightarrow> Some (JStr t, rest))
          else if c = CHR ''['' then
            (case skip_ws cs of
               [] \<Rightarrow> None
             | d # ds \<Rightarrow> if d = CHR '']'' then Some (JArr [], ds) else parse_elements n [] cs)
          else if c = CHR ''{'' then
            (case skip_ws cs of
               [] \<Rightarrow> None
             | d # ds \<Rightarrow> if d = CHR ''}'' then Some (JObj [], ds) else parse_members n [] cs)
          else if take 4 (c # cs) = ''null'' then Some (JNull, drop 3 cs)
          else if take 4 (c # cs) = ''true'' then Some (JBool True, drop 3 cs)
          else if take 5 (c # cs) = ''false'' then Some (JBool False, drop 4 cs)
          else if number_char c then
            Some (JNum (takeWhile number_char (c # cs)), dropWhile number_char cs)
          else None)"
| "parse_elements 0 acc s = None"
| "parse_elements (Suc n) acc s =
     (case parse_value n s of
        None \<Rightarrow> None
      | Some (v, rest) \<Rightarrow>
          (case skip_ws rest of
             [] \<Rightarrow> None
           | c # cs \<Rightarrow>
               if c = CHR '','' then parse_elements n (acc @ [v]) cs
               else if c = CHR '']'' then Some (JArr (acc @ [v]), cs)
               else None))"
| "parse_members 0 acc s = None"
| "parse_members (Suc n) acc s =
     (case skip_ws s of
        [] \<Rightarrow> None
      | q # qs \<Rightarrow>
          if q \<noteq> CHR ''\"'' then None
          else
            (case scan_string [] qs of
               None \<Rightarrow> None
             | Some (k, rest) \<Rightarrow>
                 (case skip_ws rest of
                    [] \<Rightarrow> None
                  | c # cs \<Rightarrow>
                      if c \<noteq> CHR '':'' then None
                      else
                        (case parse_value n cs of
                           None \<Rightarrow> None
                         | Some (v, rest') \<Rightarrow>
                             (case skip_ws rest' of
                                [] \<Rightarrow> None
                              | d # ds \<Rightarrow>
                                  if d = CHR '','' then parse_members n (obj_put k v acc) ds
                                  else if d = CHR ''}'' then Some (JObj (obj_put k v acc), ds)
                                  else None)))))"

definition demo_parse :: "string \<Rightarrow> js_error + jsval" where
  "demo_parse s =
     (case parse_value (Suc (length s)) s of
        None \<Rightarrow> Inl (JsError ''SyntaxError'' ''Unexpected token in JSON'')
      | Some (v, rest) \<Rightarrow>
          if skip_ws rest = [] then Inr v
          else Inl (JsError ''SyntaxError'' ''Unexpected token in JSON''))"

definition demo_fetch :: "request \<Rightarrow> fetch_result" where
  "demo_fetch req =
     (if url req = ''/api/health'' then
        Responded \<lparr>status = 200, json = Inr (JObj [(''healthy'', JBool True)])\<rparr>
      else if url req = ''/api/cognitive/session/start'' then
        Responded \<lparr>status = 201, json = Inr (JObj [(''sessionId'', JStr ''s-1'')])\<rparr>
      else
        Responded \<lparr>status = 404, json = Inr (JObj [(''message'', JStr ''Not found'')])\<rparr>)"

definition demo_platform :: platform where
  "demo_platform =
     \<lparr>fetch = demo_fetch,
      JSON_stringify = demo_stringify,
      JSON_parse = demo_parse,
      urlencode = (\<lambda>s. s),
      Date_now = (\<lambda>n. ''17000000000'' @ show_nat n),
      Date_toISOString = (\<lambda>n. ''2026-01-01T00:00:0'' @ show_nat n @ ''.000Z''),
      Math_random36 = (\<lambda>n. ''k3x9q2m7'' @ show_nat n),
      innerWidth = ''1280'',
      innerHeight = ''720'',
      userAgent = ''Mozilla/5.0'',
      createNeuralVisualization = None,
      tracker_startSession = None,
      tracker_trackEvent = (\<lambda>name data. None)\<rparr>"

text \<open>A backend that answers every request with a bare 500.\<close>

definition failing_backend :: "request \<Rightarrow> fetch_result" where
  "failing_backend req = Responded \<lparr>status = 500, json = Inr (JObj [])\<rparr>"

definition failing_platform :: platform where
  "failing_platform = demo_platform\<lparr>fetch := failing_backend\<rparr>"

text \<open>
  A backend that passes the health check and refuses to create a session, with a message
  that opens an HTML comment.
\<close>

definition markup_backend :: "request \<Rightarrow> fetch_result" where
  "markup_backend req =
     (if url req = ''/api/health'' then
        Responded \<lparr>status = 200, json = Inr (JObj [(''healthy'', JBool True)])\<rparr>
      else
        Responded \<lparr>status = 500, json = Inr (JObj [(''message'', JStr ''<!--'')])\<rparr>)"

definition markup_platform :: platform where
  "markup_platform = demo_platform\<lparr>fetch := markup_backend\<rparr>"

definition fresh_client :: client where
  "fresh_client =
     \<lparr>localStorage = Map.empty,
      document_body = [],
      currentSession = JNull,
      userProfile = JNull,
      isInitialized = False,
      clock = 0,
      trace = []\<rparr>"

definition running :: process where
  "running = \<lparr>proc_log = [], exit_code = None\<rparr>"

definition returning_client :: client where
  "returning_client =
     fresh_client\<lparr>localStorage :=
       [''cognitive_user_id'' \<mapsto> ''user_42_abc'',
        ''cognitive_profile_user_42_abc'' \<mapsto>
          ''{\"userId\":\"user_42_abc\",\"archetype\":\"owl\",\"sessions\":[{\"id\":\"s-1\"}]}'']\<rparr>"

definition corrupt_client :: client where
  "corrupt_client =
     fresh_client\<lparr>localStorage :=
       [''cognitive_user_id'' \<mapsto> ''user_42_abc'',
        ''cognitive_profile_user_42_abc'' \<mapsto> ''{\"userId\":'']\<rparr>"

text \<open>A platform whose network answers the health check as this repository's server does.\<close>

definition healthy_backend :: "platform \<Rightarrow> server \<Rightarrow> platform" where
  "healthy_backend P srv =
     P\<lparr>fetch := (fetch P)(health_request api_base := Responded (health_handler srv))\<rparr>"

section \<open>Vocabulary of the properties\<close>

text \<open>
  The seven user-facing operations of the API client as one type, so that a statement can
  range over them, with the text each one passes as its own failure message.
\<close>

datatype api_call =
    ApiCreateSession jsval
  | ApiCompleteSession jsval jsval
  | ApiGetComparativeInsights jsval jsval
  | ApiGetVisualization jsval
  | ApiShareProfile jsval jsval
  | ApiFindCognitiveMatches jsval jsval
  | ApiGetRecommendation jsval

fun run_call :: "platform \<Rightarrow> string \<Rightarrow> api_call \<Rightarrow> client \<Rightarrow> (js_error + jsval) \<times> client" where
  "run_call P b (ApiCreateSession sessionData) s = createSession P b sessionData s"
| "run_call P b (ApiCompleteSession sessionId finalState) s =
     completeSession P b sessionId finalState s"
| "run_call P b (ApiGetComparativeInsights userId archetype) s =
     getComparativeInsights P b userId archetype s"
| "run_call P b (ApiGetVisualization sessionId) s = getVisualization P b sessionId s"
| "run_call P b (ApiShareProfile profileData privacyLevel) s =
     shareProfile P b profileData privacyLevel s"
| "run_call P b (ApiFindCognitiveMatches userId desiredInteraction) s =
     findCognitiveMatches P b userId desiredInteraction s"
| "run_call P b (ApiGetRecommendation userId) s = getRecommendation P b userId s"

fun fallback_text :: "api_call \<Rightarrow> string" where
  "fallback_text (ApiCreateSession sessionData) = ''Failed to create session''"
| "fallback_text (ApiCompleteSession sessionId finalState) = ''Failed to complete session''"
| "fallback_text (ApiGetComparativeInsights userId archetype) =
     ''Failed to get comparative insights''"
| "fallback_text (ApiGetVisualization sessionId) = ''Failed to get visualization''"
| "fallback_text (ApiShareProfile profileData privacyLevel) = ''Failed to share profile''"
| "fallback_text (ApiFindCognitiveMatches userId desiredInteraction) = ''Failed to find matches''"
| "fallback_text (ApiGetRecommendation userId) = ''Failed to get recommendation''"

text \<open>
  Whatever the client may do between two readings of the user identifier: any of its
  operations that this excerpt defines, each against a platform of its own, since the
  world may answer differently every time.
\<close>

datatype app_call =
    DoInit
  | DoStartNewSession
  | DoLoadUserProfile
  | DoGetUserId
  | DoShowError js_error
  | DoCheckHealth
  | DoTrackEvent jsval jsval
  | DoApi api_call

fun perform :: "platform \<Rightarrow> app_call \<Rightarrow> client \<Rightarrow> client" where
  "perform P DoInit s = snd (init P s)"
| "perform P DoStartNewSession s = snd (startNewSession P s)"
| "perform P DoLoadUserProfile s = snd (loadUserProfile P s)"
| "perform P DoGetUserId s = snd (getUserId P s)"
| "perform P (DoShowError error) s = showError error s"
| "perform P DoCheckHealth s = snd (checkHealth P api_base s)"
| "perform P (DoTrackEvent sessionId eventData) s = snd (trackEvent P api_base sessionId eventData s)"
| "perform P (DoApi c) s = snd (run_call P api_base c s)"

fun perform_all :: "(platform \<times> app_call) list \<Rightarrow> client \<Rightarrow> client" where
  "perform_all [] s = s"
| "perform_all ((P, c) # cs) s = perform_all cs (perform P c s)"

definition has_user_id :: "string \<Rightarrow> client \<Rightarrow> bool" where
  "has_user_id u s = (localStorage s ''cognitive_user_id'' = Some u \<and> u \<noteq> [])"

text \<open>
  The five steps of start-up, each recognised in the trace by the call that only it makes:
  the health request, the session request, the read of the profile key, the call of the
  visualization module and the call of the tracker's \<open>startSession\<close>.
\<close>

datatype init_step = HealthCheck | CreateSession | LoadProfile | InitVisualizations | StartTracking

fun step_of :: "effect \<Rightarrow> init_step option" where
  "step_of (Fetch req) =
     (if url req = ''/api/health'' then Some HealthCheck
      else if url req = ''/api/cognitive/session/start'' then Some CreateSession
      else None)"
| "step_of (GetItem k) =
     (if take 18 k = ''cognitive_profile_'' then Some LoadProfile else None)"
| "step_of (CallNeuralVisualization target options) = Some InitVisualizations"
| "step_of CallStartSession = Some StartTracking"
| "step_of ev = None"

fun steps_of :: "effect list \<Rightarrow> init_step list" where
  "steps_of [] = []"
| "steps_of (ev # evs) =
     (case step_of ev of None \<Rightarrow> steps_of evs | Some n \<Rightarrow> n # steps_of evs)"

text \<open>
  What the HTML parser keeps of markup assigned to \<open>innerHTML\<close>, as far as comments go:
  the states of the tokenizer that a comment passes through, from the opener
  \<open><!--\<close> to one of its closings (\<open>-->\<close>, \<open>--!>\<close>, and \<open>>\<close> or \<open>->\<close> straight
  after the opener); a comment that is not closed runs to the end of the text. The
  scanner is exact for markup whose comment openers stand in text content, as the message
  of the error template does. The second argument counts characters of an opener still
  to be skipped.
\<close>

datatype html_state =
    Data | CommentStart | CommentStartDash | Comment | CommentEndDash | CommentEnd | CommentEndBang

fun outside_comments :: "html_state \<Rightarrow> nat \<Rightarrow> string \<Rightarrow> string" where
  "outside_comments st n [] = []"
| "outside_comments st (Suc n) (c # cs) = outside_comments st n cs"
| "outside_comments Data 0 (c # cs) =
     (if take 4 (c # cs) = ''<!--'' then outside_comments CommentStart 3 cs
      else c # outside_comments Data 0 cs)"
| "outside_comments CommentStart 0 (c # cs) =
     (if c = CHR ''-'' then outside_comments CommentStartDash 0 cs
      else if c = CHR ''>'' then outside_comments Data 0 cs
      else outside_comments Comment 0 cs)"
| "outside_comments CommentStartDash 0 (c # cs) =
     (if c = CHR ''-'' then outside_comments CommentEnd 0 cs
      else if c = CHR ''>'' then outside_comments Data 0 cs
      else outside_comments Comment 0 cs)"
| "outside_comments Comment 0 (c # cs) =
     (if c = CHR ''-'' then outside_comments CommentEndDash 0 cs
      else outside_comments Comment 0 cs)"
| "outside_comments CommentEndDash 0 (c # cs) =
     (if c = CHR ''-'' then outside_comments CommentEnd 0 cs
      else outside_comments Comment 0 cs)"
| "outside_comments CommentEnd 0 (c # cs) =
     (if c = CHR ''>'' then outside_comments Data 0 cs
      else if c = CHR ''!'' then outside_comments CommentEndBang 0 cs
      else if c = CHR ''-'' then outside_comments CommentEnd 0 cs
      else outside_comments Comment 0 cs)"
| "outside_comments CommentEndBang 0 (c # cs) =
     (if c = CHR ''-'' then outside_comments CommentEndDash 0 cs
      else if c = CHR ''>'' then outside_comments Data 0 cs
      else outside_comments Comment 0 cs)"

fun occurs :: "string \<Rightarrow> string \<Rightarrow> bool" where
  "occurs p [] = (p = [])"
| "occurs p (c # cs) = (take (length p) (c # cs) = p \<or> occurs p cs)"

text \<open>The overlay offers a retry when its Retry button is part of the parsed markup.\<close>

definition offers_retry :: "string \<Rightarrow> bool" where
  "offers_retry html =
     occurs ''<button onclick=\"location.reload()\" class=\"btn-primary\">Retry</button>''
       (outside_comments Data 0 html)"

section \<open>Storage, trace and document under the primitives\<close>

lemma emit_simps [simp]:
  "trace (emit ev s) = trace s @ [ev]"
  "localStorage (emit ev s) = localStorage s"
  "document_body (emit ev s) = document_body s"
  "clock (emit ev s) = clock s"
  "isInitialized (emit ev s) = isInitialized s"
  "currentSession (emit ev s) = currentSession s"
  "userProfile (emit ev s) = userProfile s"
  by (simp_all add: emit_def)

lemma setItem_simps [simp]:
  "trace (setItem k v s) = trace s @ [SetItem k v]"
  "localStorage (setItem k v s) = (localStorage s)(k \<mapsto> v)"
  "document_body (setItem k v s) = document_body s"
  "clock (setItem k v s) = clock s"
  "isInitialized (setItem k v s) = isInitialized s"
  "currentSession (setItem k v s) = currentSession s"
  "userProfile (setItem k v s) = userProfile s"
  by (simp_all add: setItem_def)

lemma getItem_simps [simp]:
  "fst (getItem k s) = localStorage s k"
  "snd (getItem k s) = emit (GetItem k) s"
  by (simp_all add: getItem_def)

lemma appendChild_simps [simp]:
  "trace (appendChild n s) = trace s"
  "localStorage (appendChild n s) = localStorage s"
  "document_body (appendChild n s) = document_body s @ [n]"
  "clock (appendChild n s) = clock s"
  "isInitialized (appendChild n s) = isInitialized s"
  "currentSession (appendChild n s) = currentSession s"
  "userProfile (appendChild n s) = userProfile s"
  by (simp_all add: appendChild_def)

lemma fold_emit_simps [simp]:
  "trace (fold emit evs s) = trace s @ evs"
  "localStorage (fold emit evs s) = localStorage s"
  "isInitialized (fold emit evs s) = isInitialized s"
  by (induction evs arbitrary: s) simp_all

lemma profile_key_neq [simp]:
  "profile_key u \<noteq> ''cognitive_user_id''"
  "''cognitive_user_id'' \<noteq> profile_key u"
  by (simp_all add: profile_key_def)

lemma take_profile_key [simp]: "take 18 (profile_key u) = ''cognitive_profile_''"
  by (simp add: profile_key_def)

lemma steps_of_append [simp]: "steps_of (xs @ ys) = steps_of xs @ steps_of ys"
  by (induction xs) (simp_all split: option.split)

lemma steps_of_listeners [simp]:
  "steps_of (map (\<lambda>page. AddEventListener page ev) pages) = []"
  by (induction pages) simp_all

lemma createNavigation_simps [simp]:
  "trace (createNavigation s) =
     trace s
       @ [AddEventListener ''themeToggle'' ''click'', AddEventListener ''startPuzzle'' ''click'']
       @ map (\<lambda>page. AddEventListener page ''click'') (nav_links (document_body s @ [NavBar]))"
  "localStorage (createNavigation s) = localStorage s"
  "isInitialized (createNavigation s) = isInitialized s"
  by (simp_all add: createNavigation_def Let_def)

lemma demo_platform_simps [simp]:
  "fetch demo_platform = demo_fetch"
  "JSON_stringify demo_platform = demo_stringify"
  "JSON_parse demo_platform = demo_parse"
  by (simp_all add: demo_platform_def)

section \<open>The API client\<close>

lemma fetch_json_fst:
  "fst (fetch_json P req fb s) =
     (case fetch P req of
        Rejected e \<Rightarrow> Inl e
      | Responded r \<Rightarrow>
          if ok r then json r
          else (case json r of
                  Inl e \<Rightarrow> Inl e
                | Inr error \<Rightarrow>
                    (case get_prop error ''message'' of
                       Inl e \<Rightarrow> Inl e
                     | Inr m \<Rightarrow> Inl (throw_new_Error (if truthy m then m else JStr fb)))))"
  by (simp add: fetch_json_def split: fetch_result.split sum.split)

lemma fetch_json_trace: "trace (snd (fetch_json P req fb s)) = trace s @ [Fetch req]"
  by (simp add: fetch_json_def)

lemma log_and_rethrow_fst [simp]: "fst (log_and_rethrow l rs) = fst rs"
  by (simp add: log_and_rethrow_def split: prod.split sum.split)

lemma log_and_rethrow_trace:
  "trace (snd (log_and_rethrow l rs)) =
     trace (snd rs) @ (case fst rs of Inl e \<Rightarrow> [ConsoleError l e] | Inr v \<Rightarrow> [])"
  by (simp add: log_and_rethrow_def split: prod.split sum.split)

text \<open>
  The request an operation sent is the one its trace shows; its outcome is then that of
  the shared block on this request.
\<close>

lemma post_json_sent:
  assumes "trace (snd (log_and_rethrow l (post_json P u payload fb s))) = trace s @ Fetch req # rest"
  shows "fst (post_json P u payload fb s) = fst (fetch_json P req fb s)"
  using assms
  by (auto simp add: post_json_def log_and_rethrow_trace fetch_json_trace fetch_json_def
        split: sum.split_asm sum.split)

lemma get_json_sent:
  assumes "trace (snd (log_and_rethrow l (get_json P u fb s))) = trace s @ Fetch req # rest"
  shows "fst (get_json P u fb s) = fst (fetch_json P req fb s)"
  using assms
  by (auto simp add: get_json_def log_and_rethrow_trace fetch_json_trace fetch_json_def
        split: sum.split_asm sum.split)

lemma unsent:
  "trace (snd (log_and_rethrow l (Inl e, s))) \<noteq> trace s @ Fetch req # rest"
  by (simp add: log_and_rethrow_def)

lemma run_call_sent:
  assumes "trace (snd (run_call P b c s)) = trace s @ Fetch req # rest"
  shows "fst (run_call P b c s) = fst (fetch_json P req (fallback_text c) s)"
proof (cases c)
  case (ApiCreateSession d)
  then show ?thesis using assms by (simp add: createSession_def post_json_sent)
next
  case (ApiCompleteSession a f)
  then show ?thesis using assms by (simp add: completeSession_def post_json_sent)
next
  case (ApiGetComparativeInsights u a)
  then show ?thesis
    using assms
    by (auto simp add: getComparativeInsights_def unsent dest: get_json_sent
          split: sum.split_asm if_split_asm)
next
  case (ApiGetVisualization a)
  then show ?thesis
    using assms
    by (auto simp add: getVisualization_def unsent dest: get_json_sent split: sum.split_asm)
next
  case (ApiShareProfile a f)
  then show ?thesis using assms by (simp add: shareProfile_def post_json_sent)
next
  case (ApiFindCognitiveMatches a f)
  then show ?thesis using assms by (simp add: findCognitiveMatches_def post_json_sent)
next
  case (ApiGetRecommendation a)
  then show ?thesis
    using assms
    by (auto simp add: getRecommendation_def unsent dest: get_json_sent split: sum.split_asm)
qed

text \<open>
  Claim C1. Whatever the session identifier and the event payload, and whatever becomes of
  the request, \<open>trackEvent\<close> does not raise: its result is always a value. That value is
  \<open>null\<close> when the payload cannot be serialised, when the network rejects, when the
  response is not 2xx and when the body of a 2xx response is not JSON; it is the parsed
  body in the one remaining case, a 2xx response whose body parses.
\<close>

theorem trackEvent_never_raises:
  "fst (trackEvent P baseURL sessionId eventData s) =
     Inr (case JSON_stringify P (JObj (spread [(''sessionId'', sessionId)] eventData)) of
            Inl e \<Rightarrow> JNull
          | Inr b \<Rightarrow>
              (case fetch P \<lparr>url = baseURL @ ''/cognitive/event'', http_method = ''POST'',
                              headers = api_headers, body = b\<rparr> of
                 Rejected e \<Rightarrow> JNull
               | Responded r \<Rightarrow>
                   if ok r then (case json r of Inl e \<Rightarrow> JNull | Inr v \<Rightarrow> v) else JNull))"
proof (cases "JSON_stringify P (JObj (spread [(''sessionId'', sessionId)] eventData))")
  case (Inl e)
  then show ?thesis by (simp add: trackEvent_def post_json_def)
next
  case (Inr b)
  then show ?thesis
    by (simp add: trackEvent_def post_json_def fetch_json_def
          split: sum.split fetch_result.split)
qed

text \<open>
  Claim C4. \<open>checkHealth\<close> does not raise. When the request is rejected its result is
  the object \<open>{ healthy: false, error: m }\<close> with \<open>m\<close> the message of the rejection;
  when the response is not ok it is that object with the message \<open>Health check failed\<close>,
  the message of the error the code throws for that case. (A 2xx body that is not JSON
  ends the same way, with the parser's message; a 2xx body that parses is returned.)
\<close>

theorem checkHealth_failure_is_value:
  "fst (checkHealth P baseURL s) =
     Inr (case fetch P (health_request baseURL) of
            Rejected e \<Rightarrow>
              JObj [(''healthy'', JBool False), (''error'', JStr (err_message e))]
          | Responded r \<Rightarrow>
              if ok r then
                (case json r of
                   Inl e \<Rightarrow> JObj [(''healthy'', JBool False), (''error'', JStr (err_message e))]
                 | Inr v \<Rightarrow> v)
              else JObj [(''healthy'', JBool False), (''error'', JStr ''Health check failed'')])"
proof (cases "fetch P (health_request baseURL)")
  case (Rejected e)
  then show ?thesis by (simp add: checkHealth_def Let_def)
next
  case (Responded r)
  then show ?thesis by (simp add: checkHealth_def Let_def split: sum.split)
qed

section \<open>The user identifier\<close>

lemma getUserId_stored:
  "localStorage s ''cognitive_user_id'' = Some u \<Longrightarrow> u \<noteq> [] \<Longrightarrow>
   getUserId P s = (u, emit (GetItem ''cognitive_user_id'') s)"
  by (simp add: getUserId_def getItem_def)

lemma getUserId_result:
  "fst (getUserId P s) \<noteq> [] \<and>
   localStorage (snd (getUserId P s)) ''cognitive_user_id'' = Some (fst (getUserId P s))"
  by (simp add: getUserId_def getItem_def fresh_user_id_def Let_def split: option.split)

lemma getUserId_storage:
  "localStorage (snd (getUserId P s)) =
     (localStorage s)(''cognitive_user_id'' \<mapsto> fst (getUserId P s))"
  by (auto simp add: getUserId_def getItem_def fresh_user_id_def Let_def split: option.split)

lemma getUserId_other_key:
  "k \<noteq> ''cognitive_user_id'' \<Longrightarrow> localStorage (snd (getUserId P s)) k = localStorage s k"
  by (simp add: getUserId_storage)

text \<open>
  Once a truthy identifier is stored, no operation of the client removes or replaces it:
  the only write to its key is the one \<open>getUserId\<close> makes when it finds none.
\<close>

lemma has_user_id_frame [simp]:
  "has_user_id u (emit ev s) = has_user_id u s"
  "has_user_id u (appendChild n s) = has_user_id u s"
  "has_user_id u (fold emit evs s) = has_user_id u s"
  "has_user_id u (s\<lparr>clock := c\<rparr>) = has_user_id u s"
  "has_user_id u (s\<lparr>currentSession := v\<rparr>) = has_user_id u s"
  "has_user_id u (s\<lparr>userProfile := v\<rparr>) = has_user_id u s"
  "has_user_id u (s\<lparr>isInitialized := b\<rparr>) = has_user_id u s"
  by (simp_all add: has_user_id_def)

lemma has_user_id_setItem [simp]:
  "k \<noteq> ''cognitive_user_id'' \<Longrightarrow> has_user_id u (setItem k v s) = has_user_id u s"
  by (simp add: has_user_id_def)

lemma fetch_json_keeps [simp]:
  "has_user_id u (snd (fetch_json P req fb s)) = has_user_id u s"
  by (simp add: fetch_json_def)

lemma log_and_rethrow_keeps [simp]:
  "has_user_id u (snd (log_and_rethrow l rs)) = has_user_id u (snd rs)"
  by (simp add: log_and_rethrow_def split_def split: sum.split)

lemma post_json_keeps [simp]:
  "has_user_id u (snd (post_json P a payload fb s)) = has_user_id u s"
  by (simp add: post_json_def split: sum.split)

lemma get_json_keeps [simp]:
  "has_user_id u (snd (get_json P a fb s)) = has_user_id u s"
  by (simp add: get_json_def)

lemma createSession_keeps [simp]:
  "has_user_id u (snd (createSession P b d s)) = has_user_id u s"
  by (simp add: createSession_def)

lemma run_call_keeps [simp]:
  "has_user_id u (snd (run_call P b c s)) = has_user_id u s"
  by (cases c)
     (simp_all add: createSession_def completeSession_def getComparativeInsights_def
        getVisualization_def shareProfile_def findCognitiveMatches_def getRecommendation_def
        split: sum.split)

lemma trackEvent_keeps [simp]:
  "has_user_id u (snd (trackEvent P b i d s)) = has_user_id u s"
  by (simp add: trackEvent_def split_def split: sum.split)

lemma checkHealth_keeps [simp]:
  "has_user_id u (snd (checkHealth P b s)) = has_user_id u s"
  by (simp add: checkHealth_def Let_def split: sum.split)

lemma getUserId_keeps [simp]:
  "has_user_id u s \<Longrightarrow> has_user_id u (snd (getUserId P s))"
  by (simp add: has_user_id_def getUserId_stored)

lemma getUserId_same:
  "has_user_id u s \<Longrightarrow> fst (getUserId P s) = u"
  by (simp add: has_user_id_def getUserId_stored)

lemma getUserId_has: "has_user_id (fst (getUserId P s)) (snd (getUserId P s))"
  using getUserId_result [of P s] by (simp add: has_user_id_def)

lemma startNewSession_keeps [simp]:
  "has_user_id u s \<Longrightarrow> has_user_id u (snd (startNewSession P s))"
  by (simp add: startNewSession_def split_def Let_def split: sum.split option.split)

lemma parse_stored_keeps [simp]:
  "has_user_id u (snd (parse_stored P b s)) = has_user_id u s"
  by (simp add: parse_stored_def split: option.split sum.split)

lemma loadUserProfile_keeps [simp]:
  "has_user_id u s \<Longrightarrow> has_user_id u (snd (loadUserProfile P s))"
  by (simp add: loadUserProfile_def split_def Let_def split: sum.split option.split)

lemma createNavigation_keeps [simp]:
  "has_user_id u (createNavigation s) = has_user_id u s"
  by (simp add: has_user_id_def)

lemma createHeroSection_keeps [simp]:
  "has_user_id u (snd (createHeroSection s)) = has_user_id u s"
  by (simp add: createHeroSection_def undefined_method_def Let_def)

lemma initializeInteractiveElements_keeps [simp]:
  "has_user_id u (snd (initializeInteractiveElements s)) = has_user_id u s"
  by (simp add: initializeInteractiveElements_def split_def split: sum.split)

lemma initializeVisualizations_keeps [simp]:
  "has_user_id u (snd (initializeVisualizations P s)) = has_user_id u s"
  by (simp add: initializeVisualizations_def Let_def split: option.split)

lemma health_stanza_keeps [simp]:
  "has_user_id u (snd (health_stanza P s)) = has_user_id u s"
  by (simp add: health_stanza_def split_def split: sum.split)

lemma session_stanza_keeps [simp]:
  "has_user_id u s \<Longrightarrow> has_user_id u (snd (session_stanza P s))"
  by (simp add: session_stanza_def split_def split: sum.split)

lemma profile_stanza_keeps [simp]:
  "has_user_id u s \<Longrightarrow> has_user_id u (snd (profile_stanza P s))"
  by (simp add: profile_stanza_def split_def split: sum.split)

lemma tracking_stanza_keeps [simp]:
  "has_user_id u (snd (tracking_stanza P s)) = has_user_id u s"
  by (simp add: tracking_stanza_def Let_def split: option.split)

lemma init_try_keeps [simp]:
  "has_user_id u s \<Longrightarrow> has_user_id u (snd (init_try P s))"
  by (simp add: init_try_def split_def announce_ready_def split: sum.split)

lemma init_keeps [simp]:
  "has_user_id u s \<Longrightarrow> has_user_id u (snd (init P s))"
  by (simp add: init_def split_def init_catch_def showError_def split: sum.split)

lemma perform_keeps: "has_user_id u s \<Longrightarrow> has_user_id u (perform P c s)"
  by (cases c) (simp_all add: showError_def)

lemma perform_all_keeps: "has_user_id u s \<Longrightarrow> has_user_id u (perform_all cs s)"
  by (induction cs arbitrary: s) (auto simp: perform_keeps)

text \<open>
  Claim C9. The user identifier is stable. \<open>getUserId\<close> leaves its result stored under
  \<open>cognitive_user_id\<close>; it generates and writes one exactly when the key is absent or
  holds the empty string (which JavaScript reads as no identifier), and otherwise returns
  the stored one and writes nothing; and after it has run once, whatever operations of
  the client follow, against whatever platform, the next \<open>getUserId\<close> returns the same
  identifier. Nothing in the client clears local storage.
\<close>

theorem getUserId_stable:
  "fst (getUserId P' (perform_all calls (snd (getUserId P s)))) = fst (getUserId P s)
   \<and> localStorage (snd (getUserId P s)) ''cognitive_user_id'' = Some (fst (getUserId P s))
   \<and> (case localStorage s ''cognitive_user_id'' of
         None \<Rightarrow> getUserId P s = fresh_user_id P (emit (GetItem ''cognitive_user_id'') s)
       | Some u \<Rightarrow>
           if u = [] then getUserId P s = fresh_user_id P (emit (GetItem ''cognitive_user_id'') s)
           else getUserId P s = (u, emit (GetItem ''cognitive_user_id'') s))"
proof -
  have "has_user_id (fst (getUserId P s)) (perform_all calls (snd (getUserId P s)))"
    by (rule perform_all_keeps) (rule getUserId_has)
  then have again: "fst (getUserId P' (perform_all calls (snd (getUserId P s)))) = fst (getUserId P s)"
    by (rule getUserId_same)
  have kept: "localStorage (snd (getUserId P s)) ''cognitive_user_id'' = Some (fst (getUserId P s))"
    using getUserId_result by simp
  have only: "(case localStorage s ''cognitive_user_id'' of
         None \<Rightarrow> getUserId P s = fresh_user_id P (emit (GetItem ''cognitive_user_id'') s)
       | Some u \<Rightarrow>
           if u = [] then getUserId P s = fresh_user_id P (emit (GetItem ''cognitive_user_id'') s)
           else getUserId P s = (u, emit (GetItem ''cognitive_user_id'') s))"
    by (simp add: getUserId_def getItem_def split: option.split)
  from again kept only show ?thesis by simp
qed

section \<open>The stored profile\<close>

text \<open>
  Claim C6. With no profile stored under the current user's key, \<open>loadUserProfile\<close>
  returns the default profile, whose \<open>archetype\<close> is \<open>null\<close> and whose \<open>sessions\<close> is the
  empty list, and leaves its serialisation under that key; a second call returns an equal
  object. The JSON built-ins are the platform's: what is assumed of them is that
  \<open>JSON.stringify\<close> gives a text for the default profile, not empty, and that
  \<open>JSON.parse\<close> reads that text back to the profile.
\<close>

theorem loadUserProfile_creates_default:
  assumes absent: "localStorage s (profile_key (fst (getUserId P s))) = None"
    and ser: "JSON_stringify P (default_profile (fst (getUserId P s))
                 (Date_toISOString P (clock (snd (getUserId P s))))) = Inr (Some blob)"
    and nonempty: "blob \<noteq> []"
    and parses: "JSON_parse P' blob = Inr (default_profile (fst (getUserId P s))
                 (Date_toISOString P (clock (snd (getUserId P s)))))"
  shows "fst (loadUserProfile P s) =
           Inr (default_profile (fst (getUserId P s))
                  (Date_toISOString P (clock (snd (getUserId P s)))))
       \<and> get_prop (default_profile (fst (getUserId P s))
                  (Date_toISOString P (clock (snd (getUserId P s))))) ''archetype'' = Inr JNull
       \<and> get_prop (default_profile (fst (getUserId P s))
                  (Date_toISOString P (clock (snd (getUserId P s))))) ''sessions'' = Inr (JArr [])
       \<and> localStorage (snd (loadUserProfile P s)) (profile_key (fst (getUserId P s))) = Some blob
       \<and> fst (loadUserProfile P' (snd (loadUserProfile P s))) = fst (loadUserProfile P s)"
proof -
  define u where "u = fst (getUserId P s)"
  define s1 where "s1 = snd (getUserId P s)"
  define d where "d = default_profile u (Date_toISOString P (clock s1))"
  have g: "getUserId P s = (u, s1)" by (simp add: u_def s1_def)
  have abs1: "localStorage s1 (profile_key u) = None"
    using absent by (simp add: s1_def u_def getUserId_other_key)
  have ser': "JSON_stringify P d = Inr (Some blob)"
    using ser by (simp add: d_def u_def s1_def)
  have parses': "JSON_parse P' blob = Inr d"
    using parses by (simp add: d_def u_def s1_def)
  have first: "loadUserProfile P s =
      (Inr d, setItem (profile_key u) blob
                (emit (GetItem (profile_key u)) s1\<lparr>clock := Suc (clock s1)\<rparr>))"
    using abs1 ser' [unfolded d_def]
    by (simp add: loadUserProfile_def g getItem_def parse_stored_def d_def Let_def)
  have "has_user_id u s1"
    using getUserId_has [of P s] by (simp add: u_def s1_def)
  then have "has_user_id u (snd (loadUserProfile P s))"
    by (simp add: first)
  then have g2: "getUserId P' (snd (loadUserProfile P s)) =
      (u, emit (GetItem ''cognitive_user_id'') (snd (loadUserProfile P s)))"
    by (simp add: has_user_id_def getUserId_stored)
  have stored: "localStorage (snd (loadUserProfile P s)) (profile_key u) = Some blob"
    by (simp add: first)
  have second: "fst (loadUserProfile P' (snd (loadUserProfile P s))) = Inr d"
    using stored nonempty parses'
    by (simp add: loadUserProfile_def [of P'] g2 getItem_def parse_stored_def)
  show ?thesis
    using first second stored
    by (simp add: d_def u_def s1_def default_profile_def)
qed

theorem loadUserProfile_creates_default_witness:
  "fst (loadUserProfile demo_platform fresh_client) =
     Inr (default_profile ''user_170000000000_k3x9q2m70'' ''2026-01-01T00:00:01.000Z'')
   \<and> fst (loadUserProfile demo_platform (snd (loadUserProfile demo_platform fresh_client))) =
     Inr (default_profile ''user_170000000000_k3x9q2m70'' ''2026-01-01T00:00:01.000Z'')
   \<and> localStorage (snd (loadUserProfile demo_platform fresh_client))
        (profile_key ''user_170000000000_k3x9q2m70'') =
     Some (json_text (default_profile ''user_170000000000_k3x9q2m70'' ''2026-01-01T00:00:01.000Z''))"
proof -
  let ?u = "''user_170000000000_k3x9q2m70''"
  let ?d = "default_profile ?u ''2026-01-01T00:00:01.000Z''"
  have u: "fst (getUserId demo_platform fresh_client) = ?u" by code_simp
  have t: "Date_toISOString demo_platform (clock (snd (getUserId demo_platform fresh_client)))
            = ''2026-01-01T00:00:01.000Z''"
    by code_simp
  have absent: "localStorage fresh_client (profile_key (fst (getUserId demo_platform fresh_client))) = None"
    by (simp add: fresh_client_def)
  have ser: "JSON_stringify demo_platform
       (default_profile (fst (getUserId demo_platform fresh_client))
          (Date_toISOString demo_platform (clock (snd (getUserId demo_platform fresh_client)))))
       = Inr (Some (json_text ?d))"
    unfolding u t by (simp add: demo_stringify_def default_profile_def)
  have nonempty: "json_text ?d \<noteq> []"
    by (simp add: default_profile_def)
  have rt: "demo_parse (json_text ?d) = Inr ?d" by code_simp
  have parses: "JSON_parse demo_platform (json_text ?d)
       = Inr (default_profile (fst (getUserId demo_platform fresh_client))
          (Date_toISOString demo_platform (clock (snd (getUserId demo_platform fresh_client)))))"
    unfolding u t using rt by simp
  show ?thesis
    using loadUserProfile_creates_default [OF absent ser nonempty parses]
    unfolding u t by simp
qed

lemma returning_user: "getUserId demo_platform returning_client =
   (''user_42_abc'', emit (GetItem ''cognitive_user_id'') returning_client)"
  by (rule getUserId_stored) (simp_all add: returning_client_def)

lemma corrupt_user: "getUserId demo_platform corrupt_client =
   (''user_42_abc'', emit (GetItem ''cognitive_user_id'') corrupt_client)"
  by (rule getUserId_stored) (simp_all add: corrupt_client_def)

text \<open>
  Claim C7. When the current user's key holds the JSON serialisation of a profile,
  \<open>loadUserProfile\<close> returns the object that text parses to, equal to the one stored,
  and does nothing else: beyond what \<open>getUserId\<close> did, the state differs only by the
  record of the one read of the key, so no default profile is built or written. Assumed of
  the platform: the text is not empty and parses back to the profile it serialises.
\<close>

theorem loadUserProfile_returns_stored:
  assumes stored: "localStorage s (profile_key (fst (getUserId P s))) = Some blob"
    and ser: "JSON_stringify P p = Inr (Some blob)"
    and nonempty: "blob \<noteq> []"
    and parses: "JSON_parse P blob = Inr p"
  shows "loadUserProfile P s =
           (Inr p, emit (GetItem (profile_key (fst (getUserId P s)))) (snd (getUserId P s)))"
proof -
  have "localStorage (snd (getUserId P s)) (profile_key (fst (getUserId P s))) = Some blob"
    using stored by (simp add: getUserId_other_key)
  then show ?thesis
    using nonempty parses
    by (simp add: loadUserProfile_def split_def getItem_def parse_stored_def)
qed

theorem loadUserProfile_returns_stored_witness:
  "loadUserProfile demo_platform returning_client =
     (Inr (JObj [(''userId'', JStr ''user_42_abc''), (''archetype'', JStr ''owl''),
                 (''sessions'', JArr [JObj [(''id'', JStr ''s-1'')]])]),
      emit (GetItem ''cognitive_profile_user_42_abc'')
        (emit (GetItem ''cognitive_user_id'') returning_client))"
proof -
  let ?p = "JObj [(''userId'', JStr ''user_42_abc''), (''archetype'', JStr ''owl''),
                  (''sessions'', JArr [JObj [(''id'', JStr ''s-1'')]])]"
  let ?blob = "''{\"userId\":\"user_42_abc\",\"archetype\":\"owl\",\"sessions\":[{\"id\":\"s-1\"}]}''"
  have stored: "localStorage returning_client
       (profile_key (fst (getUserId demo_platform returning_client))) = Some ?blob"
    by (simp add: returning_user profile_key_def) (simp add: returning_client_def)
  have ser: "JSON_stringify demo_platform ?p = Inr (Some ?blob)"
    by (simp add: demo_stringify_def json_quote_def)
  have nonempty: "?blob \<noteq> []" by simp
  have rt: "demo_parse ?blob = Inr ?p" by code_simp
  have parses: "JSON_parse demo_platform ?blob = Inr ?p"
    using rt by simp
  show ?thesis
    using loadUserProfile_returns_stored [OF stored ser nonempty parses]
    by (simp add: returning_user profile_key_def)
qed

text \<open>
  Claim C10. When the blob stored under the current user's key is not valid JSON, the
  parse failure does not reach the caller: \<open>loadUserProfile\<close> returns the default profile
  and the key now holds the default's serialisation in place of the corrupt blob. Assumed
  of the platform: \<open>JSON.stringify\<close> gives a text for the default profile.
\<close>

theorem loadUserProfile_replaces_corrupt:
  assumes stored: "localStorage s (profile_key (fst (getUserId P s))) = Some blob"
    and corrupt: "JSON_parse P blob = Inl e"
    and ser: "JSON_stringify P (default_profile (fst (getUserId P s))
                 (Date_toISOString P (clock (snd (getUserId P s))))) = Inr (Some fresh)"
  shows "fst (loadUserProfile P s) =
           Inr (default_profile (fst (getUserId P s))
                  (Date_toISOString P (clock (snd (getUserId P s)))))
       \<and> localStorage (snd (loadUserProfile P s)) =
           (localStorage (snd (getUserId P s)))(profile_key (fst (getUserId P s)) \<mapsto> fresh)"
proof -
  have "localStorage (snd (getUserId P s)) (profile_key (fst (getUserId P s))) = Some blob"
    using stored by (simp add: getUserId_other_key)
  then show ?thesis
    using corrupt ser
    by (simp add: loadUserProfile_def split_def getItem_def parse_stored_def Let_def)
qed

theorem loadUserProfile_replaces_corrupt_witness:
  "fst (loadUserProfile demo_platform corrupt_client) =
     Inr (default_profile ''user_42_abc'' ''2026-01-01T00:00:00.000Z'')
   \<and> localStorage (snd (loadUserProfile demo_platform corrupt_client))
        ''cognitive_profile_user_42_abc'' =
     Some (json_text (default_profile ''user_42_abc'' ''2026-01-01T00:00:00.000Z''))"
proof -
  let ?d = "default_profile ''user_42_abc'' ''2026-01-01T00:00:00.000Z''"
  have u: "fst (getUserId demo_platform corrupt_client) = ''user_42_abc''"
    by (simp add: corrupt_user)
  have t: "Date_toISOString demo_platform (clock (snd (getUserId demo_platform corrupt_client)))
            = ''2026-01-01T00:00:00.000Z''"
    by code_simp
  have stored: "localStorage corrupt_client
       (profile_key (fst (getUserId demo_platform corrupt_client))) = Some ''{\"userId\":''"
    by (simp add: corrupt_user profile_key_def) (simp add: corrupt_client_def)
  have bad: "demo_parse ''{\"userId\":'' = Inl (JsError ''SyntaxError'' ''Unexpected token in JSON'')"
    by code_simp
  have corrupt: "JSON_parse demo_platform ''{\"userId\":''
       = Inl (JsError ''SyntaxError'' ''Unexpected token in JSON'')"
    using bad by simp
  have ser: "JSON_stringify demo_platform
       (default_profile (fst (getUserId demo_platform corrupt_client))
          (Date_toISOString demo_platform (clock (snd (getUserId demo_platform corrupt_client)))))
       = Inr (Some (json_text ?d))"
    unfolding t u by (simp add: demo_stringify_def default_profile_def)
  show ?thesis
    using loadUserProfile_replaces_corrupt [OF stored corrupt ser]
    unfolding t by (simp add: corrupt_user profile_key_def)
qed

section \<open>Start-up\<close>

text \<open>
  Claim C2. Against this repository's own server the health check cannot pass. The
  \<open>/api/health\<close> handler answers 200 with \<open>status: 'healthy'\<close> and no \<open>healthy\<close>
  property; \<open>checkHealth\<close> returns that body as it is, \<open>health.healthy\<close> reads
  \<open>undefined\<close>, and \<open>init\<close> throws \<open>API server is not available\<close>: it returns
  \<open>false\<close>, the health request is the only step in the trace (no session is created),
  and the error overlay is shown with that message.
\<close>

theorem init_rejects_healthy_server:
  "fst (checkHealth (healthy_backend P srv) api_base s) = json (health_handler srv)
   \<and> (case json (health_handler srv) of
         Inl e \<Rightarrow> False
       | Inr health \<Rightarrow> get_prop health ''healthy'' = Inr JUndefined)
   \<and> fst (init (healthy_backend P srv) s) = False
   \<and> steps_of (trace (snd (init (healthy_backend P srv) s))) = steps_of (trace s) @ [HealthCheck]
   \<and> document_body (snd (init (healthy_backend P srv) s)) =
       document_body s @ [ErrorOverlay (error_html ''API server is not available'')]"
proof -
  have a: "fst (checkHealth (healthy_backend P srv) api_base s) = json (health_handler srv)"
    by (simp add: checkHealth_def healthy_backend_def health_handler_def ok_def Let_def)
  have b: "(case json (health_handler srv) of
         Inl e \<Rightarrow> False
       | Inr health \<Rightarrow> get_prop health ''healthy'' = Inr JUndefined)"
    by (simp add: health_handler_def)
  have h: "health_stanza (healthy_backend P srv) t =
     (Inl (JsError ''Error'' ''API server is not available''),
      emit (Fetch (health_request api_base)) t)" for t
    by (simp add: health_stanza_def checkHealth_def healthy_backend_def health_handler_def
          ok_def Let_def)
  have c: "init (healthy_backend P srv) s =
     (False, init_catch (JsError ''Error'' ''API server is not available'')
        (emit (Fetch (health_request api_base))
           (emit (ConsoleLog ''Initializing Cognitive Mirrors...'') s)))"
    by (simp add: init_def init_try_def h)
  show ?thesis
    unfolding c using a b
    by (simp add: init_catch_def showError_def health_request_def api_base_def)
qed

text \<open>The steps each stanza leaves in the trace.\<close>

lemma steps_getUserId [simp]:
  "steps_of (trace (snd (getUserId P s))) = steps_of (trace s)"
  by (simp add: getUserId_def getItem_def fresh_user_id_def Let_def split: option.split)

lemma steps_checkHealth [simp]:
  "steps_of (trace (snd (checkHealth P api_base s))) = steps_of (trace s) @ [HealthCheck]"
  by (simp add: checkHealth_def health_request_def api_base_def Let_def split: sum.split)

lemma steps_health_stanza:
  "steps_of (trace (snd (health_stanza P s))) = steps_of (trace s) @ [HealthCheck]"
  by (simp add: health_stanza_def split_def split: sum.split)

lemma steps_createSession:
  "steps_of (trace (snd (createSession P api_base d s))) =
     steps_of (trace s) @ (case JSON_stringify P d of Inl e \<Rightarrow> [] | Inr b \<Rightarrow> [CreateSession])"
  by (simp add: createSession_def post_json_def fetch_json_def log_and_rethrow_def api_base_def
           split: sum.split fetch_result.split)

lemma createSession_sent:
  "fst (createSession P api_base d s) = Inr v \<Longrightarrow> \<exists>b. JSON_stringify P d = Inr b"
  by (simp add: createSession_def post_json_def split: sum.split_asm)

lemma steps_startNewSession:
  "steps_of (trace (snd (startNewSession P s))) = steps_of (trace s) @ [CreateSession]
   \<or> (isl (fst (startNewSession P s)) \<and>
       steps_of (trace (snd (startNewSession P s))) = steps_of (trace s))"
  apply (simp add: startNewSession_def split_def Let_def steps_createSession
           split: sum.split option.split)
  apply (auto dest: createSession_sent)
  done

lemma steps_session_stanza:
  "steps_of (trace (snd (session_stanza P s))) = steps_of (trace s) @ [CreateSession]
   \<or> (isl (fst (session_stanza P s)) \<and>
       steps_of (trace (snd (session_stanza P s))) = steps_of (trace s))"
  using steps_startNewSession [of P s]
  by (auto simp add: session_stanza_def split_def split: sum.split)

lemma steps_parse_stored [simp]:
  "steps_of (trace (snd (parse_stored P b s))) = steps_of (trace s)"
  by (simp add: parse_stored_def split: option.split sum.split)

lemma steps_loadUserProfile:
  "steps_of (trace (snd (loadUserProfile P s))) = steps_of (trace s) @ [LoadProfile]"
  by (simp add: loadUserProfile_def split_def Let_def split: sum.split option.split)

lemma steps_profile_stanza:
  "steps_of (trace (snd (profile_stanza P s))) = steps_of (trace s) @ [LoadProfile]"
  by (simp add: profile_stanza_def split_def steps_loadUserProfile split: sum.split)

lemma steps_interactive [simp]:
  "steps_of (trace (snd (initializeInteractiveElements s))) = steps_of (trace s)"
  by (simp add: initializeInteractiveElements_def createHeroSection_def undefined_method_def
        Let_def)

lemma steps_initializeVisualizations:
  "steps_of (trace (snd (initializeVisualizations P s))) =
     steps_of (trace s) @ [InitVisualizations]"
  by (simp add: initializeVisualizations_def Let_def split: option.split)

lemma steps_init_catch [simp]:
  "steps_of (trace (init_catch e s)) = steps_of (trace s)"
  by (simp add: init_catch_def showError_def)

text \<open>
  In this excerpt start-up cannot complete: the fourth step builds the hero section, which
  calls \<open>this.animateStats()\<close>, and the class has no such method. So \<open>init\<close> returns
  \<open>false\<close> on every platform and from every state. The steps its trace shows are a
  beginning of the sequence health check, session, profile, visualizations, in that
  order; tracking is never started.
\<close>

lemma initializeVisualizations_throws: "isl (fst (initializeVisualizations P s))"
  by (simp add: initializeVisualizations_def initializeInteractiveElements_def
        createHeroSection_def undefined_method_def Let_def split: option.split)

lemma init_steps_in_order:
  "fst (init P s) = False
   \<and> (steps_of (trace (snd (init P s))) = steps_of (trace s) @ [HealthCheck]
      \<or> steps_of (trace (snd (init P s))) = steps_of (trace s) @ [HealthCheck, CreateSession]
      \<or> steps_of (trace (snd (init P s))) =
          steps_of (trace s) @ [HealthCheck, CreateSession, LoadProfile]
      \<or> steps_of (trace (snd (init P s))) =
          steps_of (trace s) @ [HealthCheck, CreateSession, LoadProfile, InitVisualizations])"
proof -
  define s0 where "s0 = emit (ConsoleLog ''Initializing Cognitive Mirrors...'') s"
  define s1 where "s1 = snd (health_stanza P s0)"
  define s2 where "s2 = snd (session_stanza P s1)"
  define s3 where "s3 = snd (profile_stanza P s2)"
  define s4 where "s4 = snd (initializeVisualizations P s3)"
  have t1: "steps_of (trace s1) = steps_of (trace s) @ [HealthCheck]"
    by (simp add: s1_def s0_def steps_health_stanza)
  have t2: "steps_of (trace s2) = steps_of (trace s1) @ [CreateSession]
     \<or> (isl (fst (session_stanza P s1)) \<and> steps_of (trace s2) = steps_of (trace s1))"
    unfolding s2_def by (rule steps_session_stanza)
  have t3: "steps_of (trace s3) = steps_of (trace s2) @ [LoadProfile]"
    by (simp add: s3_def steps_profile_stanza)
  have t4: "steps_of (trace s4) = steps_of (trace s3) @ [InitVisualizations]"
    by (simp add: s4_def steps_initializeVisualizations)
  obtain e4 where v: "fst (initializeVisualizations P s3) = Inl e4"
    using initializeVisualizations_throws [of P s3]
    by (cases "fst (initializeVisualizations P s3)") simp_all
  have it: "init_try P s =
     (case fst (health_stanza P s0) of
        Inl e \<Rightarrow> (Inl e, s1)
      | Inr u \<Rightarrow>
     (case fst (session_stanza P s1) of
        Inl e \<Rightarrow> (Inl e, s2)
      | Inr u \<Rightarrow>
     (case fst (profile_stanza P s2) of
        Inl e \<Rightarrow> (Inl e, s3)
      | Inr u \<Rightarrow> (Inl e4, s4))))"
    using v
    by (simp add: init_try_def split_def s0_def s1_def s2_def s3_def s4_def split: sum.split)
  show ?thesis
    unfolding init_def it
    using t1 t2 t3 t4
    by (auto split: sum.split)
qed

text \<open>
  Claim C5. A failed start-up does not always offer the retry: \<open>showError\<close> puts the
  error's message into the overlay's markup as it is, and the message can come from the
  server. Here the backend passes the health check and answers the session request with
  500 and the message \<open><!--\<close>: \<open>init\<close> stops at the second step and returns
  \<open>false\<close>, the overlay is the one node in the document, and in its markup the message
  opens a comment that nothing closes, so the parser keeps the heading and drops the
  rest, the Retry button included. With a message of plain text the button is there.
\<close>

theorem init_overlay_without_retry:
  "fst (init markup_platform fresh_client) = False
   \<and> steps_of (trace (snd (init markup_platform fresh_client))) = [HealthCheck, CreateSession]
   \<and> document_body (snd (init markup_platform fresh_client)) = [ErrorOverlay (error_html ''<!--'')]
   \<and> outside_comments Data 0 (error_html ''<!--'') =
       ''<div class=\"error-content\"><div class=\"error-icon\"></div><h3>Cognitive Engine Error</h3><p>''
   \<and> \<not> offers_retry (error_html ''<!--'')
   \<and> offers_retry (error_html ''Failed to create session'')"
proof -
  have r: "fst (init markup_platform fresh_client) = False" by code_simp
  have t: "steps_of (trace (snd (init markup_platform fresh_client))) = [HealthCheck, CreateSession]"
    by code_simp
  have d: "document_body (snd (init markup_platform fresh_client)) = [ErrorOverlay (error_html ''<!--'')]"
    by code_simp
  have k: "outside_comments Data 0 (error_html ''<!--'') =
       ''<div class=\"error-content\"><div class=\"error-icon\"></div><h3>Cognitive Engine Error</h3><p>''"
    by code_simp
  have n: "\<not> offers_retry (error_html ''<!--'')" by code_simp
  have y: "offers_retry (error_html ''Failed to create session'')" by code_simp
  from r t d k n y show ?thesis by simp
qed

section \<open>Errors of the user-facing operations\<close>

text \<open>
  Claim C3, as the code has it. For each of the seven user-facing operations, once its
  request has left: a rejected fetch surfaces as the error it rejected with; a response
  that is not 2xx and whose body is JSON other than \<open>null\<close> becomes an \<open>Error\<close> whose
  message is the body's \<open>message\<close>, as text, when that is truthy, and the operation's
  own fixed text (\<open>Failed to create session\<close> and its siblings) when it is not; no
  message is made from the HTTP status. In each case the operation's result is that
  error: it propagates to the caller.
\<close>

theorem api_errors_propagate:
  assumes sent: "trace (snd (run_call P baseURL c s)) = trace s @ Fetch req # rest"
  shows "(\<forall>e. fetch P req = Rejected e \<longrightarrow> fst (run_call P baseURL c s) = Inl e)
       \<and> (\<forall>r error m.
             fetch P req = Responded r \<and> \<not> ok r \<and> json r = Inr error
             \<and> get_prop error ''message'' = Inr m \<and> \<not> truthy m
             \<longrightarrow> fst (run_call P baseURL c s) = Inl (JsError ''Error'' (fallback_text c)))
       \<and> (\<forall>r error m t.
             fetch P req = Responded r \<and> \<not> ok r \<and> json r = Inr error
             \<and> get_prop error ''message'' = Inr m \<and> truthy m \<and> ToString m = Inr t
             \<longrightarrow> fst (run_call P baseURL c s) = Inl (JsError ''Error'' t))"
proof -
  have out: "fst (run_call P baseURL c s) = fst (fetch_json P req (fallback_text c) s)"
    using sent by (rule run_call_sent)
  show ?thesis
    unfolding out by (simp add: fetch_json_fst throw_new_Error_def)
qed

theorem api_errors_propagate_witness:
  "fst (run_call demo_platform ''/api'' (ApiGetRecommendation (JStr ''u1'')) fresh_client)
     = Inl (JsError ''Error'' ''Not found'')
   \<and> fst (run_call failing_platform ''/api'' (ApiGetRecommendation (JStr ''u1'')) fresh_client)
     = Inl (JsError ''Error'' ''Failed to get recommendation'')"
proof -
  let ?req = "\<lparr>url = ''/api/cognitive/recommendation/u1'', http_method = ''GET'',
                headers = api_headers, body = None\<rparr>"
  let ?c = "ApiGetRecommendation (JStr ''u1'')"
  have sent1: "trace (snd (run_call demo_platform ''/api'' ?c fresh_client))
      = trace fresh_client @ Fetch ?req
        # [ConsoleError ''Recommendation error:'' (JsError ''Error'' ''Not found'')]"
    by (simp add: getRecommendation_def get_json_def fetch_json_def log_and_rethrow_def
          demo_fetch_def fresh_client_def ok_def emit_def throw_new_Error_def)
  have sent2: "trace (snd (run_call failing_platform ''/api'' ?c fresh_client))
      = trace fresh_client @ Fetch ?req
        # [ConsoleError ''Recommendation error:'' (JsError ''Error'' ''Failed to get recommendation'')]"
    by (simp add: getRecommendation_def get_json_def fetch_json_def log_and_rethrow_def
          failing_platform_def failing_backend_def fresh_client_def ok_def emit_def
          throw_new_Error_def)
  let ?r1 = "\<lparr>status = 404, json = Inr (JObj [(''message'', JStr ''Not found'')])\<rparr>"
  let ?r2 = "\<lparr>status = 500, json = Inr (JObj [])\<rparr>"
  have f1: "fetch demo_platform ?req = Responded ?r1 \<and> \<not> ok ?r1
       \<and> json ?r1 = Inr (JObj [(''message'', JStr ''Not found'')])
       \<and> get_prop (JObj [(''message'', JStr ''Not found'')]) ''message'' = Inr (JStr ''Not found'')
       \<and> truthy (JStr ''Not found'') \<and> ToString (JStr ''Not found'') = Inr ''Not found''"
    by (simp add: demo_fetch_def ok_def)
  have f2: "fetch failing_platform ?req = Responded ?r2 \<and> \<not> ok ?r2
       \<and> json ?r2 = Inr (JObj [])
       \<and> get_prop (JObj []) ''message'' = Inr JUndefined \<and> \<not> truthy JUndefined"
    by (simp add: failing_platform_def failing_backend_def ok_def)
  have a: "fst (run_call demo_platform ''/api'' ?c fresh_client) = Inl (JsError ''Error'' ''Not found'')"
    using api_errors_propagate [OF sent1] f1 by blast
  have b: "fst (run_call failing_platform ''/api'' ?c fresh_client)
       = Inl (JsError ''Error'' (fallback_text ?c))"
    using api_errors_propagate [OF sent2] f2 by blast
  from a b show ?thesis by simp
qed

text \<open>
  The claim as the specification words it fails: a 500 response without a \<open>message\<close>
  gives \<open>createSession\<close> the message \<open>Failed to create session\<close>, where the
  HTTP-status fallback, which only the unused \<open>handleError\<close> computes, would be
  \<open>HTTP 500\<close>.
\<close>

theorem api_fallback_counterexample:
  "fst (createSession failing_platform ''/api'' (JObj []) fresh_client)
     = Inl (JsError ''Error'' ''Failed to create session'')
   \<and> fst (createSession failing_platform ''/api'' (JObj []) fresh_client)
     \<noteq> Inl (JsError ''Error'' (''HTTP '' @ show_nat 500))
   \<and> handleError \<lparr>status = 500, json = Inr (JObj [])\<rparr> = Inl (JsError ''Error'' ''HTTP 500'')"
  by (simp add: createSession_def post_json_def fetch_json_def log_and_rethrow_def
        failing_platform_def failing_backend_def demo_platform_def demo_stringify_def ok_def
        handleError_def show_nat.simps throw_new_Error_def)

section \<open>Faults of the server process\<close>

text \<open>
  Claim C8, as the code has it. In a running server process an uncaught exception is
  logged, to the console and through \<open>logError\<close>, and the process exits with code 1. An
  unhandled promise rejection whose reason has a rendering as text is logged the same way
  and the process keeps running: it has no exit code afterwards.
\<close>

theorem server_fault_handling:
  assumes running: "exit_code p = None"
  shows "raise_fault (UncaughtException error) p =
           p\<lparr>proc_log := proc_log p @ [console_error ''Uncaught Exception:'' (ReasonError error),
                                         logError error ''uncaughtException''],
              exit_code := Some 1\<rparr>
       \<and> (\<forall>t. reason_text r = Inr t \<longrightarrow>
             raise_fault (UnhandledRejection r) p =
               p\<lparr>proc_log := proc_log p
                    @ [console_error ''Unhandled Rejection at:'' r,
                       logError (JsError ''Error'' (''Unhandled Rejection: '' @ t)) ''promise'']\<rparr>
             \<and> exit_code (raise_fault (UnhandledRejection r) p) = None)"
  using running
  by (simp add: raise_fault_def on_uncaughtException_def on_unhandledRejection_def
        record_entry_def process_exit_def Let_def)

theorem server_fault_handling_witness:
  "exit_code (raise_fault (UncaughtException (JsError ''TypeError'' ''x is not a function'')) running)
     = Some 1
   \<and> proc_log (raise_fault (UncaughtException (JsError ''TypeError'' ''x is not a function'')) running)
       = [console_error ''Uncaught Exception:'' (ReasonError (JsError ''TypeError'' ''x is not a function'')),
          logError (JsError ''TypeError'' ''x is not a function'') ''uncaughtException'']
   \<and> exit_code (raise_fault (UnhandledRejection (ReasonError (JsError ''Error'' ''boom''))) running)
       = None
   \<and> proc_log (raise_fault (UnhandledRejection (ReasonError (JsError ''Error'' ''boom''))) running)
       = [console_error ''Unhandled Rejection at:'' (ReasonError (JsError ''Error'' ''boom'')),
          logError (JsError ''Error'' ''Unhandled Rejection: Error: boom'') ''promise'']"
proof -
  have h: "exit_code running = None" by (simp add: running_def)
  have t: "reason_text (ReasonError (JsError ''Error'' ''boom'')) = Inr ''Error: boom''"
    by (simp add: reason_text_def)
  show ?thesis
    using server_fault_handling
      [OF h, of "JsError ''TypeError'' ''x is not a function''"
         "ReasonError (JsError ''Error'' ''boom'')"] t
    by (simp add: running_def)
qed

text \<open>
  The claim as the specification words it fails on the second kind of fault: after an
  unhandled rejection with an ordinary \<open>Error\<close> the process has no exit code.
\<close>

theorem server_faults_counterexample:
  "exit_code (raise_fault (UnhandledRejection (ReasonError (JsError ''Error'' ''boom''))) running)
     = None"
  by (simp add: raise_fault_def on_unhandledRejection_def record_entry_def running_def
        reason_text_def Let_def)

text \<open>
  A reason without a rendering makes the listener itself throw, and that exception ends
  the process through the other handler.
\<close>

lemma unprintable_rejection_exits:
  assumes "exit_code p = None" and "reason_text r = Inl e"
  shows "exit_code (raise_fault (UnhandledRejection r) p) = Some 1"
  using assms
  by (simp add: raise_fault_def on_uncaughtException_def on_unhandledRejection_def
        record_entry_def process_exit_def Let_def)

end
